theory Spec2Isabelle
  imports Complex_Main
begin

section \<open>JavaScript values\<close>

text \<open>
  A JavaScript string is a sequence of UTF-16 code units; the scraper's patterns mention
  a code unit outside Latin-1 (the em dash) and the whitespace class, so strings are lists
  of code units and \<open>ustr\<close> turns an ASCII literal into one.
\<close>

type_synonym ustring = "nat list"

definition ustr :: "string \<Rightarrow> ustring" where
  "ustr s = map of_char s"

text \<open>
  A JavaScript number. The code never computes with numbers: it parses, copies and
  compares them. A finite number is modelled by the decimal that denotes it (\<open>0.02\<close> is
  \<open>Num 0.02\<close>): a decimal of at most 15 significant digits determines its double and is
  determined by it, and the literals of the source are such, so \<open>===\<close> on these numbers
  is equality of the decimals. Where \<open>parseFloat\<close> would round a longer literal, or
  overflow to an infinity, the model keeps the exact value; the two zeros are one value.
  \<open>NaN\<close> is kept apart because \<open>!==\<close> and \<open>Number.isNaN\<close> see it.
\<close>

datatype jsnum = Num rat | NaN | PosInfinity | NegInfinity

text \<open>\<open>number | null\<close>: \<open>None\<close> is \<open>null\<close>.\<close>

type_synonym price = "jsnum option"

text \<open>
  What reading a price property of an arbitrary value gives: \<open>undefined\<close> when the value
  has no such property, else a \<open>number | null\<close>.
\<close>

datatype jsprice = Undefined | Defined price

text \<open>
  \<open>a !== b\<close> for a stored price \<open>a\<close> (\<open>number | null\<close>) and a price \<open>b\<close> read from a
  looked-up value: \<open>undefined\<close> differs from every stored price, and \<open>NaN\<close> differs from
  everything, itself included.
\<close>

definition strict_neq :: "price \<Rightarrow> jsprice \<Rightarrow> bool" where
  "strict_neq a b =
     (case b of
        Undefined \<Rightarrow> True
      | Defined d \<Rightarrow>
          (case a of
             None \<Rightarrow> (case d of None \<Rightarrow> False | Some y \<Rightarrow> True)
           | Some x \<Rightarrow> (case d of None \<Rightarrow> True | Some y \<Rightarrow> \<not> (x = y \<and> x \<noteq> NaN))))"

text \<open>
  A thrown value, as the handlers read it: \<open>error instanceof Error ? error.message : ...\<close>
  and, in a template string, \<open>String(error)\<close>.
\<close>

datatype thrown =
    ErrorObj ustring ustring  \<comment> \<open>an \<open>Error\<close>: its \<open>name\<close> and \<open>message\<close>\<close>
  | NonError ustring          \<comment> \<open>anything else, with its string conversion\<close>

fun message_or_unknown :: "thrown \<Rightarrow> ustring" where
  "message_or_unknown (ErrorObj n m) = m"
| "message_or_unknown (NonError s) = ustr ''Unknown error''"


section \<open>The static capability mapping (lib/scrapers/model-capabilities)\<close>

text \<open>
  The interface \<open>ModelCapabilities\<close>. Its prices are declared \<open>number | null\<close>; the type
  parameter is \<open>price\<close> for a value that keeps to the declaration and \<open>jsprice\<close> for what
  the route reads from a value it has looked up.
\<close>

record 'p ModelCapabilities =
  pricingImageGen :: 'p
  pricingWebSearch :: 'p

text \<open>The object literal \<open>MODEL_CAPABILITIES\<close>: its own properties, in insertion order.\<close>

definition MODEL_CAPABILITIES :: "(ustring \<times> price ModelCapabilities) list" where
  "MODEL_CAPABILITIES =
    [(ustr ''openai/gpt-5'',
        \<lparr>pricingImageGen = Some (Num 0.02), pricingWebSearch = Some (Num 0.025)\<rparr>),
     (ustr ''openai/gpt-5-chat'',
        \<lparr>pricingImageGen = Some (Num 0.02), pricingWebSearch = Some (Num 0.025)\<rparr>),
     (ustr ''openai/gpt-5-mini'',
        \<lparr>pricingImageGen = Some (Num 0.02), pricingWebSearch = Some (Num 0.025)\<rparr>),
     (ustr ''openai/gpt-5.2'',
        \<lparr>pricingImageGen = Some (Num 0.02), pricingWebSearch = Some (Num 0.025)\<rparr>),
     (ustr ''openai/gpt-4o'',
        \<lparr>pricingImageGen = Some (Num 0.02), pricingWebSearch = None\<rparr>),
     (ustr ''openai/gpt-4o-mini'',
        \<lparr>pricingImageGen = Some (Num 0.02), pricingWebSearch = None\<rparr>),
     (ustr ''google/gemini-2.5-flash'',
        \<lparr>pricingImageGen = Some (Num 0.02), pricingWebSearch = None\<rparr>),
     (ustr ''google/gemini-2.5-flash-lite'',
        \<lparr>pricingImageGen = Some (Num 0.02), pricingWebSearch = None\<rparr>),
     (ustr ''google/gemini-2.5-pro'',
        \<lparr>pricingImageGen = Some (Num 0.02), pricingWebSearch = None\<rparr>),
     (ustr ''google/gemini-3-flash'',
        \<lparr>pricingImageGen = Some (Num 0.02), pricingWebSearch = None\<rparr>),
     (ustr ''google/gemini-3-pro-preview'',
        \<lparr>pricingImageGen = Some (Num 0.02), pricingWebSearch = None\<rparr>),
     (ustr ''google/gemini-3-pro-image'',
        \<lparr>pricingImageGen = Some (Num 0.02), pricingWebSearch = None\<rparr>),
     (ustr ''xai/grok-3'',
        \<lparr>pricingImageGen = None, pricingWebSearch = Some (Num 0.05)\<rparr>),
     (ustr ''xai/grok-3-fast'',
        \<lparr>pricingImageGen = None, pricingWebSearch = Some (Num 0.05)\<rparr>),
     (ustr ''xai/grok-3-mini'',
        \<lparr>pricingImageGen = None, pricingWebSearch = Some (Num 0.05)\<rparr>),
     (ustr ''xai/grok-4'',
        \<lparr>pricingImageGen = None, pricingWebSearch = Some (Num 0.05)\<rparr>),
     (ustr ''perplexity/sonar'',
        \<lparr>pricingImageGen = None, pricingWebSearch = Some (Num 0.005)\<rparr>),
     (ustr ''perplexity/sonar-pro'',
        \<lparr>pricingImageGen = None, pricingWebSearch = Some (Num 0.005)\<rparr>),
     (ustr ''perplexity/sonar-reasoning'',
        \<lparr>pricingImageGen = None, pricingWebSearch = Some (Num 0.005)\<rparr>),
     (ustr ''perplexity/sonar-reasoning-pro'',
        \<lparr>pricingImageGen = None, pricingWebSearch = Some (Num 0.005)\<rparr>)]"

text \<open>
  The properties an object literal inherits from \<open>Object.prototype\<close>. Each holds a
  function or an object: a value that is truthy, is not nullish, and has no price property.
\<close>

definition Object_prototype :: "ustring list" where
  "Object_prototype =
     [ustr ''constructor'', ustr ''__defineGetter__'', ustr ''__defineSetter__'',
      ustr ''hasOwnProperty'', ustr ''__lookupGetter__'', ustr ''__lookupSetter__'',
      ustr ''isPrototypeOf'', ustr ''propertyIsEnumerable'', ustr ''toString'',
      ustr ''valueOf'', ustr ''__proto__'', ustr ''toLocaleString'']"

text \<open>
  \<open>MODEL_CAPABILITIES[modelId]\<close>: an entry of the table, a value inherited from
  \<open>Object.prototype\<close>, or \<open>undefined\<close>.
\<close>

datatype property = Own "price ModelCapabilities" | Inherited | Missing

definition MODEL_CAPABILITIES_at :: "ustring \<Rightarrow> property" where
  "MODEL_CAPABILITIES_at modelId =
     (case map_of MODEL_CAPABILITIES modelId of
        Some caps \<Rightarrow> Own caps
      | None \<Rightarrow> if modelId \<in> set Object_prototype then Inherited else Missing)"

text \<open>
  \<open>MODEL_CAPABILITIES[modelId] ?? {pricingImageGen: null, pricingWebSearch: null}\<close>, as
  the route reads the value it gets: by its two price properties. An inherited value is
  not nullish, so it is what is returned, and its price properties are \<open>undefined\<close>.
\<close>

definition getModelCapabilities :: "ustring \<Rightarrow> jsprice ModelCapabilities" where
  "getModelCapabilities modelId =
     (case MODEL_CAPABILITIES_at modelId of
        Own caps \<Rightarrow>
          \<lparr>pricingImageGen = Defined (pricingImageGen caps),
           pricingWebSearch = Defined (pricingWebSearch caps)\<rparr>
      | Inherited \<Rightarrow> \<lparr>pricingImageGen = Undefined, pricingWebSearch = Undefined\<rparr>
      | Missing \<Rightarrow> \<lparr>pricingImageGen = Defined None, pricingWebSearch = Defined None\<rparr>)"

text \<open>
  \<open>Boolean(MODEL_CAPABILITIES[id])\<close>: an entry and an inherited value are truthy,
  \<open>undefined\<close> is not.
\<close>

definition in_mapping :: "ustring \<Rightarrow> bool" where
  "in_mapping modelId = (MODEL_CAPABILITIES_at modelId \<noteq> Missing)"

text \<open>
  The form of a model id, \<open>provider/name\<close>: the table's keys have it, and the sync of the
  models derives the provider as \<open>id.split("/")[0]\<close>.
\<close>

definition qualified_id :: "ustring \<Rightarrow> bool" where
  "qualified_id modelId = (47 \<in> set modelId)"


section \<open>The capability sync route (POST applies, GET previews)\<close>

text \<open>
  A record of an id and the two capability prices. A row of the model store, as far as the
  route reads it, is one whose prices are \<open>number | null\<close>; an update record the route
  builds is one whose prices are what it read from the looked-up value.
\<close>

record 'p CapabilityRecord = "'p ModelCapabilities" +
  id' :: ustring

type_synonym Model = "price CapabilityRecord"

type_synonym CapabilityUpdate = "jsprice CapabilityRecord"

text \<open>What \<open>bulkUpdateModelCapabilities\<close> reports.\<close>

record 'e UpdateResult =
  total :: nat
  successful :: nat
  failed :: nat
  errors :: "'e list"

text \<open>
  The JSON report of POST; \<open>summary_updated\<close> is \<open>report.summary.updated\<close>, and so on.
  The timestamp is left out.
\<close>

record 'e SyncReport =
  success :: bool
  source :: ustring
  summary_totalModels :: nat
  summary_inMapping :: nat
  summary_updated :: nat
  summary_unchanged :: nat
  summary_notInMapping :: nat
  summary_failed :: nat
  details_updated :: "CapabilityUpdate list"
  details_notInMapping :: "ustring list"
  details_errors :: "'e list"

text \<open>One element of GET's \<open>preview\<close> array: \<open>{id, current, new, willUpdate, inMapping}\<close>.\<close>

record PreviewEntry =
  entry_id :: ustring
  entry_current :: "price ModelCapabilities"
  entry_new :: "jsprice ModelCapabilities"
  entry_willUpdate :: bool
  entry_inMapping :: bool

text \<open>The JSON report of GET; \<open>preview_summary_total\<close> is \<open>summary.total\<close>, and so on.\<close>

record PreviewReport =
  preview_success :: bool
  preview_source :: ustring
  mappingVersion :: ustring
  preview :: "PreviewEntry list"
  preview_summary_total :: nat
  preview_summary_willUpdate :: nat
  preview_summary_unchanged :: nat
  preview_summary_inMapping :: nat
  preview_summary_notInMapping :: nat

text \<open>A response: \<open>new ChatSDKError(code, cause).toResponse()\<close> or \<open>Response.json(report)\<close>.\<close>

datatype 'a response = ChatSDKError ustring ustring | Json 'a

definition imageGenChanged :: "Model \<Rightarrow> bool" where
  "imageGenChanged existingModel =
     strict_neq (pricingImageGen existingModel)
       (pricingImageGen (getModelCapabilities (id' existingModel)))"

definition webSearchChanged :: "Model \<Rightarrow> bool" where
  "webSearchChanged existingModel =
     strict_neq (pricingWebSearch existingModel)
       (pricingWebSearch (getModelCapabilities (id' existingModel)))"

text \<open>The condition under which a model is updated: \<open>imageGenChanged || webSearchChanged\<close>.\<close>

definition changed :: "Model \<Rightarrow> bool" where
  "changed existingModel = (imageGenChanged existingModel \<or> webSearchChanged existingModel)"

text \<open>The record pushed on \<open>updates\<close> for a model.\<close>

definition update_for :: "Model \<Rightarrow> CapabilityUpdate" where
  "update_for existingModel =
     (let capabilities = getModelCapabilities (id' existingModel)
      in \<lparr>pricingImageGen = pricingImageGen capabilities,
          pricingWebSearch = pricingWebSearch capabilities,
          id' = id' existingModel\<rparr>)"

text \<open>
  POST's loop over \<open>existingModels\<close>; the accumulator is
  \<open>(updates, unchanged, notInMapping)\<close> and \<open>push\<close> appends.
\<close>

fun sync_loop ::
  "Model list \<Rightarrow> CapabilityUpdate list \<times> ustring list \<times> ustring list
     \<Rightarrow> CapabilityUpdate list \<times> ustring list \<times> ustring list" where
  "sync_loop [] acc = acc"
| "sync_loop (existingModel # rest) (updates, unchanged, notInMapping) =
     (let notInMapping1 =
            (if \<not> in_mapping (id' existingModel)
             then notInMapping @ [id' existingModel] else notInMapping)
      in if imageGenChanged existingModel \<or> webSearchChanged existingModel
         then sync_loop rest (updates @ [update_for existingModel], unchanged, notInMapping1)
         else sync_loop rest (updates, unchanged @ [id' existingModel], notInMapping1))"

text \<open>
  What a run of POST leaves behind: the response, the store, and the argument of every
  call of the bulk write it made.
\<close>

record ('e, 's) run =
  run_response :: "'e SyncReport response"
  run_store :: 's
  run_bulk_calls :: "CapabilityUpdate list list"

definition sync_report ::
  "Model list \<Rightarrow> CapabilityUpdate list \<Rightarrow> ustring list \<Rightarrow> ustring list \<Rightarrow> 'e UpdateResult
     \<Rightarrow> 'e SyncReport" where
  "sync_report existingModels updates unchanged notInMapping updateResult =
     \<lparr>success = True,
      source = ustr ''static-mapping'',
      summary_totalModels = length existingModels,
      summary_inMapping = length (map fst MODEL_CAPABILITIES),
      summary_updated = successful updateResult,
      summary_unchanged = length unchanged,
      summary_notInMapping = length notInMapping,
      summary_failed = failed updateResult,
      details_updated =
        map (\<lambda>u. \<lparr>pricingImageGen = pricingImageGen u,
                    pricingWebSearch = pricingWebSearch u, id' = id' u\<rparr>) updates,
      details_notInMapping = take 20 notInMapping,
      details_errors = errors updateResult\<rparr>"

text \<open>
  POST. The two store operations are the route's imports from lib/db/queries;
  \<open>expectedApiKey\<close> is the environment variable (\<open>None\<close> when unset) and \<open>apiKey\<close> the
  request header (\<open>None\<close> when absent). A store operation that throws is caught by the
  route's handler.
\<close>

definition POST ::
  "('s \<Rightarrow> thrown + Model list)
     \<Rightarrow> (CapabilityUpdate list \<Rightarrow> 's \<Rightarrow> (thrown + 'e UpdateResult) \<times> 's)
     \<Rightarrow> ustring option \<Rightarrow> ustring option \<Rightarrow> 's \<Rightarrow> ('e, 's) run" where
  "POST getEnabledModels bulkUpdateModelCapabilities expectedApiKey apiKey store =
     (if expectedApiKey = None \<or> expectedApiKey = Some []
      then \<lparr>run_response =
               ChatSDKError (ustr ''bad_request:api'') (ustr ''MODELS_SYNC_API_KEY not configured''),
             run_store = store, run_bulk_calls = []\<rparr>
      else if apiKey \<noteq> expectedApiKey
      then \<lparr>run_response = ChatSDKError (ustr ''unauthorized:api'') (ustr ''Invalid API key''),
             run_store = store, run_bulk_calls = []\<rparr>
      else
        (case getEnabledModels store of
           Inl error \<Rightarrow>
             \<lparr>run_response =
                ChatSDKError (ustr ''bad_request:api'')
                  (ustr ''Failed to sync capabilities: '' @ message_or_unknown error),
              run_store = store, run_bulk_calls = []\<rparr>
         | Inr existingModels \<Rightarrow>
             (case sync_loop existingModels ([], [], []) of
                (updates, unchanged, notInMapping) \<Rightarrow>
                  if length updates > 0
                  then
                    (case bulkUpdateModelCapabilities updates store of
                       (Inl error, store1) \<Rightarrow>
                         \<lparr>run_response =
                            ChatSDKError (ustr ''bad_request:api'')
                              (ustr ''Failed to sync capabilities: '' @ message_or_unknown error),
                          run_store = store1, run_bulk_calls = [updates]\<rparr>
                     | (Inr updateResult, store1) \<Rightarrow>
                         \<lparr>run_response =
                            Json (sync_report existingModels updates unchanged notInMapping
                                    updateResult),
                          run_store = store1, run_bulk_calls = [updates]\<rparr>)
                  else
                    \<lparr>run_response =
                       Json (sync_report existingModels updates unchanged notInMapping
                               \<lparr>total = 0, successful = 0, failed = 0, errors = []\<rparr>),
                     run_store = store, run_bulk_calls = []\<rparr>)))"

text \<open>The entry GET pushes on \<open>preview\<close> for a model.\<close>

definition preview_entry :: "Model \<Rightarrow> PreviewEntry" where
  "preview_entry existingModel =
     (let capabilities = getModelCapabilities (id' existingModel);
          inMapping = in_mapping (id' existingModel)
      in \<lparr>entry_id = id' existingModel,
          entry_current = \<lparr>pricingImageGen = pricingImageGen existingModel,
                           pricingWebSearch = pricingWebSearch existingModel\<rparr>,
          entry_new = \<lparr>pricingImageGen = pricingImageGen capabilities,
                       pricingWebSearch = pricingWebSearch capabilities\<rparr>,
          entry_willUpdate = (imageGenChanged existingModel \<or> webSearchChanged existingModel),
          entry_inMapping = inMapping\<rparr>)"

text \<open>GET's loop over \<open>existingModels\<close>, pushing on \<open>preview\<close>.\<close>

fun preview_loop :: "Model list \<Rightarrow> PreviewEntry list \<Rightarrow> PreviewEntry list" where
  "preview_loop [] acc = acc"
| "preview_loop (existingModel # rest) acc =
     preview_loop rest (acc @ [preview_entry existingModel])"

text \<open>GET. It has no write operation to call: its only store access is the read.\<close>

definition GET ::
  "('s \<Rightarrow> thrown + Model list) \<Rightarrow> ustring option \<Rightarrow> ustring option \<Rightarrow> 's
     \<Rightarrow> PreviewReport response" where
  "GET getEnabledModels expectedApiKey apiKey store =
     (if expectedApiKey = None \<or> expectedApiKey = Some []
      then ChatSDKError (ustr ''bad_request:api'') (ustr ''MODELS_SYNC_API_KEY not configured'')
      else if apiKey \<noteq> expectedApiKey
      then ChatSDKError (ustr ''unauthorized:api'') (ustr ''Invalid API key'')
      else
        (case getEnabledModels store of
           Inl error \<Rightarrow>
             ChatSDKError (ustr ''bad_request:api'')
               (ustr ''Failed to preview capabilities: '' @ message_or_unknown error)
         | Inr existingModels \<Rightarrow>
             (let pv = preview_loop existingModels []
              in Json
                  \<lparr>preview_success = True,
                   preview_source = ustr ''static-mapping'',
                   mappingVersion = ustr ''2026-01-05'',
                   preview = pv,
                   preview_summary_total = length pv,
                   preview_summary_willUpdate = length (filter entry_willUpdate pv),
                   preview_summary_unchanged =
                     length (filter (\<lambda>p. \<not> entry_willUpdate p) pv),
                   preview_summary_inMapping = length (filter entry_inMapping pv),
                   preview_summary_notInMapping =
                     length (filter (\<lambda>p. \<not> entry_inMapping p) pv)\<rparr>)))"


section \<open>The model store\<close>

text \<open>
  The route's two store operations, \<open>getEnabledModels\<close> and
  \<open>bulkUpdateModelCapabilities\<close>, are defined in lib/db/queries, which is not among the
  sources; POST and GET above take them as parameters. What follows is a store to run the
  route on: the list of its rows.
\<close>

text \<open>
  Modelled from the spec: the write of one record (lib/db/queries is missing). A record
  carries the id of the row it is for and the two capability prices to store. A column
  holds a number or null; a field that is \<open>undefined\<close> holds nothing to store, and the
  column keeps its value.
\<close>

definition stored :: "jsprice \<Rightarrow> price \<Rightarrow> price" where
  "stored field column = (case field of Undefined \<Rightarrow> column | Defined v \<Rightarrow> v)"

definition write_row :: "CapabilityUpdate \<Rightarrow> Model \<Rightarrow> Model" where
  "write_row u row =
     (if id' row = id' u
      then row\<lparr>pricingImageGen := stored (pricingImageGen u) (pricingImageGen row),
               pricingWebSearch := stored (pricingWebSearch u) (pricingWebSearch row)\<rparr>
      else row)"

text \<open>
  Modelled from the spec: the bulk write (\<open>bulkUpdateModelCapabilities\<close> of lib/db/queries
  is missing). The spec gives it as a durable write that reports per record,
  \<open>{total, successful, failed, errors}\<close>, and is not transactional across records: a
  refused record is counted and described, and the others are written. \<open>rejects\<close> says
  which records the store refuses, and with what description.
\<close>

fun store_bulk_update ::
  "(CapabilityUpdate \<Rightarrow> 'e option) \<Rightarrow> CapabilityUpdate list \<Rightarrow> Model list
     \<Rightarrow> 'e UpdateResult \<times> Model list" where
  "store_bulk_update rejects [] rows =
     (\<lparr>total = 0, successful = 0, failed = 0, errors = []\<rparr>, rows)"
| "store_bulk_update rejects (u # us) rows =
     (case rejects u of
        Some e \<Rightarrow>
          (case store_bulk_update rejects us rows of
             (r, rows1) \<Rightarrow>
               (r\<lparr>total := Suc (total r), failed := Suc (failed r), errors := e # errors r\<rparr>,
                rows1))
      | None \<Rightarrow>
          (case store_bulk_update rejects us (map (write_row u) rows) of
             (r, rows1) \<Rightarrow>
               (r\<lparr>total := Suc (total r), successful := Suc (successful r)\<rparr>, rows1)))"

text \<open>
  Modelled from the spec: the read of the current models (\<open>getEnabledModels\<close> of
  lib/db/queries is missing), which gives the rows of the store.
\<close>

definition store_getEnabledModels :: "Model list \<Rightarrow> thrown + Model list" where
  "store_getEnabledModels rows = Inr rows"

text \<open>
  Modelled from the spec: the bulk write as the route calls it (lib/db/queries is
  missing): it returns the result and leaves the new rows.
\<close>

definition store_bulkUpdateModelCapabilities ::
  "(CapabilityUpdate \<Rightarrow> 'e option) \<Rightarrow> CapabilityUpdate list \<Rightarrow> Model list
     \<Rightarrow> (thrown + 'e UpdateResult) \<times> Model list" where
  "store_bulkUpdateModelCapabilities rejects updates rows =
     (case store_bulk_update rejects updates rows of (r, rows1) \<Rightarrow> (Inr r, rows1))"

text \<open>
  Modelled from the spec: the rows after every record of a batch has been written, which
  is what the bulk write leaves when the store refuses nothing (lib/db/queries is missing).
\<close>

fun written_all :: "CapabilityUpdate list \<Rightarrow> Model list \<Rightarrow> Model list" where
  "written_all [] rows = rows"
| "written_all (u # us) rows = written_all us (map (write_row u) rows)"


section \<open>Example stores\<close>

text \<open>
  Three rows whose prices differ from the mapping's, the same rows with the mapping's
  prices, and the update records the route builds for them.
\<close>

definition gpt4o_stale :: Model where
  "gpt4o_stale =
     \<lparr>pricingImageGen = None, pricingWebSearch = None, id' = ustr ''openai/gpt-4o''\<rparr>"

definition gpt4o_synced :: Model where
  "gpt4o_synced =
     \<lparr>pricingImageGen = Some (Num 0.02), pricingWebSearch = None, id' = ustr ''openai/gpt-4o''\<rparr>"

definition gpt4o_update :: CapabilityUpdate where
  "gpt4o_update =
     \<lparr>pricingImageGen = Defined (Some (Num 0.02)), pricingWebSearch = Defined None,
      id' = ustr ''openai/gpt-4o''\<rparr>"

definition grok3_stale :: Model where
  "grok3_stale =
     \<lparr>pricingImageGen = None, pricingWebSearch = None, id' = ustr ''xai/grok-3''\<rparr>"

definition grok3_synced :: Model where
  "grok3_synced =
     \<lparr>pricingImageGen = None, pricingWebSearch = Some (Num 0.05), id' = ustr ''xai/grok-3''\<rparr>"

definition grok3_update :: CapabilityUpdate where
  "grok3_update =
     \<lparr>pricingImageGen = Defined None, pricingWebSearch = Defined (Some (Num 0.05)),
      id' = ustr ''xai/grok-3''\<rparr>"

definition sonar_stale :: Model where
  "sonar_stale =
     \<lparr>pricingImageGen = Some (Num 0.02), pricingWebSearch = None,
      id' = ustr ''perplexity/sonar''\<rparr>"

definition sonar_synced :: Model where
  "sonar_synced =
     \<lparr>pricingImageGen = None, pricingWebSearch = Some (Num 0.005),
      id' = ustr ''perplexity/sonar''\<rparr>"

definition sonar_update :: CapabilityUpdate where
  "sonar_update =
     \<lparr>pricingImageGen = Defined None, pricingWebSearch = Defined (Some (Num 0.005)),
      id' = ustr ''perplexity/sonar''\<rparr>"

text \<open>
  A store that refuses every write to \<open>xai/grok-3\<close>, one that refuses every write, and one
  that refuses none.
\<close>

definition rejects_grok3 :: "CapabilityUpdate \<Rightarrow> ustring option" where
  "rejects_grok3 u =
     (if id' u = ustr ''xai/grok-3'' then Some (ustr ''update failed'') else None)"

definition rejects_all :: "CapabilityUpdate \<Rightarrow> ustring option" where
  "rejects_all u = Some (ustr ''update failed'')"

definition accepts_all :: "CapabilityUpdate \<Rightarrow> ustring option" where
  "accepts_all u = None"

text \<open>
  \<open>n\<close> models that the mapping does not list, with the capabilities of the default record.
\<close>

definition unlisted_models :: "nat \<Rightarrow> Model list" where
  "unlisted_models n =
     map (\<lambda>i. \<lparr>pricingImageGen = None, pricingWebSearch = None,
               id' = ustr ''acme/model-'' @ [65 + i]\<rparr>) [0..<n]"


section \<open>Patterns (the regular expressions of lib/scrapers/vercel-models)\<close>

text \<open>The code unit of an ASCII character.\<close>

definition cu :: "char \<Rightarrow> nat" where
  "cu c = of_char c"

text \<open>The class \<open>\s\<close>, which is also the whitespace \<open>parseFloat\<close> skips.\<close>

definition is_ws :: "nat \<Rightarrow> bool" where
  "is_ws c =
     (c \<in> set [9, 10, 11, 12, 13, 32, 160, 5760, 8232, 8233, 8239, 8287, 12288, 65279] \<or>
      (8192 \<le> c \<and> c \<le> 8202))"

text \<open>The class \<open>\d\<close>.\<close>

definition is_digit :: "nat \<Rightarrow> bool" where
  "is_digit c = (48 \<le> c \<and> c \<le> 57)"

text \<open>
  Case folding under the flag \<open>i\<close>, for the ASCII letters: the patterns' letters are all
  ASCII, and a code unit above 127 never folds to one below.
\<close>

definition to_upper :: "nat \<Rightarrow> nat" where
  "to_upper c = (if 97 \<le> c \<and> c \<le> 122 then c - 32 else c)"

definition to_lower :: "nat \<Rightarrow> nat" where
  "to_lower c = (if 65 \<le> c \<and> c \<le> 90 then c + 32 else c)"

text \<open>
  Every quantifier of the file's patterns stands on a character class (or a single
  character), and alternation occurs at the top only. So a pattern is a list of
  alternatives, an alternative a list of atoms, and an atom a literal text or a class under
  a quantifier.
\<close>

datatype quantifier = One | Opt | Star | Plus | LazyStar

datatype atom = Lit ustring | Cls "nat \<Rightarrow> bool" quantifier

definition in_class :: "bool \<Rightarrow> (nat \<Rightarrow> bool) \<Rightarrow> nat \<Rightarrow> bool" where
  "in_class ci p c = (if ci then p c \<or> p (to_upper c) \<or> p (to_lower c) else p c)"

definition same_text :: "bool \<Rightarrow> ustring \<Rightarrow> ustring \<Rightarrow> bool" where
  "same_text ci a b = (if ci then map to_upper a = map to_upper b else a = b)"

text \<open>
  The numbers of code units an atom may take at the head of \<open>s\<close>, in the order the
  backtracking matcher tries them: a greedy quantifier the longest first, a lazy one the
  shortest first.
\<close>

fun candidates :: "bool \<Rightarrow> atom \<Rightarrow> ustring \<Rightarrow> nat list" where
  "candidates ci (Lit l) s =
     (if same_text ci (take (length l) s) l then [length l] else [])"
| "candidates ci (Cls p q) s =
     (let n = length (takeWhile (in_class ci p) s)
      in case q of
           One \<Rightarrow> (if 0 < n then [1] else [])
         | Opt \<Rightarrow> (if 0 < n then [1, 0] else [0])
         | Star \<Rightarrow> rev [0..<Suc n]
         | Plus \<Rightarrow> rev [1..<Suc n]
         | LazyStar \<Rightarrow> [0..<Suc n])"

text \<open>
  A match of the atoms at the head of \<open>s\<close>: the text each atom took, for the first
  choice of lengths, in backtracking order, under which every atom matches.
  \<open>try_lengths\<close> goes through the lengths left for the atom that stands before \<open>as\<close>.
\<close>

fun match_atoms :: "bool \<Rightarrow> atom list \<Rightarrow> ustring \<Rightarrow> ustring list option"
  and try_lengths :: "bool \<Rightarrow> atom list \<Rightarrow> ustring \<Rightarrow> nat list \<Rightarrow> ustring list option" where
  "match_atoms ci [] s = Some []"
| "match_atoms ci (a # as) s = try_lengths ci as s (candidates ci a s)"
| "try_lengths ci as s [] = None"
| "try_lengths ci as s (k # ks) =
     (case match_atoms ci as (drop k s) of
        Some ps \<Rightarrow> Some (take k s # ps)
      | None \<Rightarrow> try_lengths ci as s ks)"

text \<open>
  The leftmost match in \<open>s\<close>: the text before it, the texts of its atoms, and the text
  after it.
\<close>

fun search ::
  "bool \<Rightarrow> atom list \<Rightarrow> ustring \<Rightarrow> (ustring \<times> ustring list \<times> ustring) option" where
  "search ci as [] =
     (case match_atoms ci as [] of None \<Rightarrow> None | Some ps \<Rightarrow> Some ([], ps, []))"
| "search ci as (c # s) =
     (case match_atoms ci as (c # s) of
        Some ps \<Rightarrow> Some ([], ps, drop (length (concat ps)) (c # s))
      | None \<Rightarrow>
          (case search ci as s of
             None \<Rightarrow> None
           | Some (before, ps, after) \<Rightarrow> Some (c # before, ps, after)))"

text \<open>\<open>regex.test(s)\<close> for a pattern with alternatives.\<close>

definition rx_test :: "bool \<Rightarrow> atom list list \<Rightarrow> ustring \<Rightarrow> bool" where
  "rx_test ci alts s = list_ex (\<lambda>as. search ci as s \<noteq> None) alts"

text \<open>The text of a capture group that spans the atoms \<open>i, ..., i + n - 1\<close>.\<close>

definition group_text :: "ustring list \<Rightarrow> nat \<Rightarrow> nat \<Rightarrow> ustring" where
  "group_text ps i n = concat (take n (drop i ps))"


section \<open>parseFloat and parsePricing\<close>

text \<open>
  A value of untyped JSON, and \<open>json option\<close> for a value that may be \<open>undefined\<close>.
\<close>

datatype json =
    JNull
  | JBool bool
  | JNumber jsnum
  | JString ustring
  | JArray "json list"
  | JObject "(ustring \<times> json) list"

definition digits_value :: "ustring \<Rightarrow> nat" where
  "digits_value ds = foldl (\<lambda>a d. 10 * a + (d - 48)) 0 ds"

text \<open>\<open>ExponentPart\<close>: the power of ten it denotes, 0 when there is none.\<close>

definition exponent_part :: "ustring \<Rightarrow> int" where
  "exponent_part s =
     (case s of
        [] \<Rightarrow> 0
      | e # r \<Rightarrow>
          if e = cu CHR ''e'' \<or> e = cu CHR ''E''
          then (case r of
                  [] \<Rightarrow> 0
                | sg # r1 \<Rightarrow>
                    if sg = cu CHR ''-''
                    then - int (digits_value (takeWhile is_digit r1))
                    else if sg = cu CHR ''+''
                    then int (digits_value (takeWhile is_digit r1))
                    else int (digits_value (takeWhile is_digit r)))
          else 0)"

definition scale10 :: "rat \<Rightarrow> int \<Rightarrow> rat" where
  "scale10 x e = (if 0 \<le> e then x * 10 ^ nat e else x / 10 ^ nat (- e))"

text \<open>
  The value of the longest prefix of \<open>s\<close> that is a \<open>StrUnsignedDecimalLiteral\<close>:
  \<open>Infinity\<close>, digits with an optional fraction, or a fraction alone, each of the last
  two with an optional exponent; \<open>NaN\<close> when no prefix is one.
\<close>

definition unsigned_literal :: "ustring \<Rightarrow> jsnum" where
  "unsigned_literal s =
     (if take 8 s = ustr ''Infinity'' then PosInfinity
      else
        (let ip = takeWhile is_digit s;
             r1 = dropWhile is_digit s;
             dotted = (r1 \<noteq> [] \<and> hd r1 = cu CHR ''.'');
             fp = (if dotted then takeWhile is_digit (tl r1) else []);
             r2 = (if dotted then dropWhile is_digit (tl r1) else r1)
         in if ip = [] \<and> fp = [] then NaN
            else Num (scale10
                   (of_nat (digits_value ip) + of_nat (digits_value fp) / 10 ^ length fp)
                   (exponent_part r2))))"

definition negate :: "jsnum \<Rightarrow> jsnum" where
  "negate x =
     (case x of Num q \<Rightarrow> Num (- q) | NaN \<Rightarrow> NaN
      | PosInfinity \<Rightarrow> NegInfinity | NegInfinity \<Rightarrow> PosInfinity)"

definition parseFloat :: "ustring \<Rightarrow> jsnum" where
  "parseFloat s =
     (let t = dropWhile is_ws s
      in case t of
           [] \<Rightarrow> NaN
         | c # r \<Rightarrow>
             if c = cu CHR ''+'' then unsigned_literal r
             else if c = cu CHR ''-'' then negate (unsigned_literal r)
             else unsigned_literal t)"

text \<open>
  \<open>parsePricing\<close>. Its parameter is typed \<open>string | number | null | undefined\<close>; what it
  receives at run time is a value of the parsed page data.
\<close>

fun parsePricing :: "json option \<Rightarrow> price" where
  "parsePricing None = None"
| "parsePricing (Some JNull) = None"
| "parsePricing (Some (JNumber n)) = Some n"
| "parsePricing (Some (JString v)) =
     (let cleaned = filter (\<lambda>c. \<not> (c = cu CHR ''$'' \<or> c = cu CHR '','' \<or> is_ws c)) v;
          parsed = parseFloat cleaned
      in if parsed = NaN then None else Some parsed)"
| "parsePricing (Some v) = None"


section \<open>The scraper (lib/scrapers/vercel-models)\<close>

text \<open>
  \<open>ScrapedModelCapabilities\<close>. The id is typed \<open>string\<close>; the structured strategy copies
  whatever truthy value the page data holds under \<open>id\<close>.
\<close>

record ScrapedModelCapabilities = "price ModelCapabilities" +
  scraped_id :: json

text \<open>\<open>ScrapeResult\<close>: its \<open>models\<close> and \<open>errors\<close>, without the timestamp.\<close>

record ScrapeResult =
  scrape_models :: "ScrapedModelCapabilities list"
  scrape_errors :: "ustring list"

subsection \<open>Strategy B: the table markup\<close>

text \<open>
  \<open>/<tr[^>]*>[\s\S]*?<a[^>]*href="\/ai-gateway\/models\/([^"]+)"[^>]*>[\s\S]*?<\/tr>/gi\<close>;
  the group is atom 7.
\<close>

definition modelRowRegex :: "atom list" where
  "modelRowRegex =
     [Lit (ustr ''<tr''), Cls (\<lambda>c. c \<noteq> cu CHR ''>'') Star, Lit (ustr ''>''),
      Cls (\<lambda>c. True) LazyStar,
      Lit (ustr ''<a''), Cls (\<lambda>c. c \<noteq> cu CHR ''>'') Star,
      Lit (ustr ''href='' @ [34] @ ustr ''/ai-gateway/models/''),
      Cls (\<lambda>c. c \<noteq> 34) Plus,
      Lit [34], Cls (\<lambda>c. c \<noteq> cu CHR ''>'') Star, Lit (ustr ''>''),
      Cls (\<lambda>c. True) LazyStar,
      Lit (ustr ''</tr>'')]"

text \<open>\<open>/\$(\d+\.?\d*)\/?M?/i\<close>; the group is atoms 1 to 3.\<close>

definition priceRegex :: "atom list" where
  "priceRegex =
     [Lit (ustr ''$''), Cls is_digit Plus, Cls (\<lambda>c. c = cu CHR ''.'') Opt, Cls is_digit Star,
      Cls (\<lambda>c. c = cu CHR ''/'') Opt, Cls (\<lambda>c. c = cu CHR ''M'') Opt]"

text \<open>\<open>/Image\s+Gen|image[\s-]?gen/i\<close> and \<open>/Web\s+Search|web[\s-]?search/i\<close>\<close>

definition imageGenRegex :: "atom list list" where
  "imageGenRegex =
     [[Lit (ustr ''Image''), Cls is_ws Plus, Lit (ustr ''Gen'')],
      [Lit (ustr ''image''), Cls (\<lambda>c. is_ws c \<or> c = cu CHR ''-'') Opt, Lit (ustr ''gen'')]]"

definition webSearchRegex :: "atom list list" where
  "webSearchRegex =
     [[Lit (ustr ''Web''), Cls is_ws Plus, Lit (ustr ''Search'')],
      [Lit (ustr ''web''), Cls (\<lambda>c. is_ws c \<or> c = cu CHR ''-'') Opt, Lit (ustr ''search'')]]"

text \<open>The negation pattern: an em dash (U+2014), or \<open>none\<close>, or \<open>no\<close>, under the flag \<open>i\<close>.\<close>

definition negationRegex :: "atom list list" where
  "negationRegex = [[Lit [8212]], [Lit (ustr ''none'')], [Lit (ustr ''no'')]]"

definition providerPatterns :: "(atom list list \<times> ustring) list" where
  "providerPatterns =
     [([[Lit (ustr ''openai'')], [Lit (ustr ''gpt'')]], ustr ''openai''),
      ([[Lit (ustr ''anthropic'')], [Lit (ustr ''claude'')]], ustr ''anthropic''),
      ([[Lit (ustr ''google'')], [Lit (ustr ''gemini'')]], ustr ''google''),
      ([[Lit (ustr ''xai'')], [Lit (ustr ''grok'')]], ustr ''xai''),
      ([[Lit (ustr ''meta'')], [Lit (ustr ''llama'')]], ustr ''meta''),
      ([[Lit (ustr ''mistral'')]], ustr ''mistral''),
      ([[Lit (ustr ''deepseek'')]], ustr ''deepseek'')]"

definition startsWith :: "ustring \<Rightarrow> ustring \<Rightarrow> bool" where
  "startsWith s p = (take (length p) s = p)"

text \<open>The loop of \<open>inferModelId\<close> over the provider patterns; the first that matches wins.\<close>

fun provider_loop :: "(atom list list \<times> ustring) list \<Rightarrow> ustring \<Rightarrow> ustring \<Rightarrow> ustring option" where
  "provider_loop [] slug rowHtml = None"
| "provider_loop ((pattern, provider) # rest) slug rowHtml =
     (if rx_test True pattern rowHtml
      then (let modelName = map (\<lambda>c. if c = cu CHR ''-'' then cu CHR ''-'' else c) slug
            in Some (provider @ ustr ''/'' @ modelName))
      else provider_loop rest slug rowHtml)"

definition inferModelId :: "ustring \<Rightarrow> ustring \<Rightarrow> ustring option" where
  "inferModelId slug rowHtml =
     (case provider_loop providerPatterns slug rowHtml of
        Some modelId \<Rightarrow> Some modelId
      | None \<Rightarrow>
          if startsWith slug (ustr ''gpt-'') then Some (ustr ''openai/'' @ slug)
          else if startsWith slug (ustr ''claude-'') then Some (ustr ''anthropic/'' @ slug)
          else if startsWith slug (ustr ''gemini-'') then Some (ustr ''google/'' @ slug)
          else if startsWith slug (ustr ''grok-'') then Some (ustr ''xai/'' @ slug)
          else None)"

text \<open>\<open>extractPricingFromRow\<close>; it never reads its \<open>capability\<close> argument.\<close>

definition extractPricingFromRow :: "ustring \<Rightarrow> ustring \<Rightarrow> price" where
  "extractPricingFromRow rowHtml capability =
     (case search True priceRegex rowHtml of
        None \<Rightarrow> None
      | Some (before, matches, after) \<Rightarrow>
          if group_text matches 1 3 \<noteq> []
          then (let price = parseFloat (group_text matches 1 3)
                in if price \<noteq> NaN then Some price else None)
          else None)"

text \<open>The body of \<open>extractFromHTML\<close>'s loop, for one match: the record it pushes, if any.\<close>

definition row_record :: "ustring \<Rightarrow> ustring \<Rightarrow> ScrapedModelCapabilities option" where
  "row_record modelSlug rowHtml =
     (let modelId = inferModelId modelSlug rowHtml;
          hasImageGen = (rx_test True imageGenRegex rowHtml \<and> \<not> rx_test True negationRegex rowHtml);
          hasWebSearch = (rx_test True webSearchRegex rowHtml \<and> \<not> rx_test True negationRegex rowHtml);
          imageGenPrice = extractPricingFromRow rowHtml (ustr ''Image Gen'');
          webSearchPrice = extractPricingFromRow rowHtml (ustr ''Web Search'')
      in case modelId of
           None \<Rightarrow> None
         | Some i \<Rightarrow>
             if i \<noteq> []
             then Some \<lparr>pricingImageGen = (if hasImageGen then imageGenPrice else None),
                        pricingWebSearch = (if hasWebSearch then webSearchPrice else None),
                        scraped_id = JString i\<rparr>
             else None)"

lemma try_lengths_SomeD:
  "try_lengths ci as s ks = Some ps \<Longrightarrow>
     \<exists>k ps'. k \<in> set ks \<and> match_atoms ci as (drop k s) = Some ps' \<and> ps = take k s # ps'"
  by (induction ks) (auto split: option.splits)

lemma match_atoms_prefix: "match_atoms ci as s = Some ps \<Longrightarrow> \<exists>r. s = concat ps @ r"
proof (induction as arbitrary: s ps)
  case Nil
  then show ?case by simp
next
  case (Cons a as)
  from Cons.prems obtain k ps' where
    "match_atoms ci as (drop k s) = Some ps'" and ps: "ps = take k s # ps'"
    by (auto dest!: try_lengths_SomeD)
  then obtain r where "drop k s = concat ps' @ r"
    using Cons.IH by blast
  then have "s = concat ps @ r"
    using ps append_take_drop_id [of k s] by (metis append.assoc concat.simps(2))
  then show ?case ..
qed

lemma search_SomeD:
  "search ci as s = Some (before, ps, after) \<Longrightarrow>
     \<exists>t. match_atoms ci as t = Some ps \<and> s = before @ t \<and>
         after = drop (length (concat ps)) t"
proof (induction s arbitrary: before)
  case Nil
  then show ?case
    by (cases "match_atoms ci as []") auto
next
  case (Cons c s)
  show ?case
  proof (cases "match_atoms ci as (c # s)")
    case None
    with Cons.prems obtain b where "search ci as s = Some (b, ps, after)" "before = c # b"
      by (auto split: option.splits)
    with Cons.IH show ?thesis by auto
  next
    case (Some qs)
    with Cons.prems show ?thesis by auto
  qed
qed

lemma search_decomposition:
  assumes "search ci as s = Some (before, ps, after)"
  shows "s = before @ concat ps @ after"
proof -
  from assms obtain t where t: "match_atoms ci as t = Some ps" "s = before @ t"
    "after = drop (length (concat ps)) t"
    using search_SomeD by blast
  from t(1) obtain r where "t = concat ps @ r"
    using match_atoms_prefix by blast
  then show ?thesis
    using t(2,3) by simp
qed

lemma same_text_length: "same_text ci a b \<Longrightarrow> length a = length b"
  by (auto simp: same_text_def split: if_splits dest: map_eq_imp_length_eq)

lemma match_literal_first:
  assumes "match_atoms ci (Lit l # as) s = Some ps"
  shows "length l \<le> length (concat ps)"
proof -
  from assms obtain k ps' where k: "k \<in> set (candidates ci (Lit l) s)" "ps = take k s # ps'"
    by (auto dest!: try_lengths_SomeD)
  then have "k = length l" "same_text ci (take (length l) s) l"
    by (auto split: if_splits)
  then have "length (take k s) = length l"
    using same_text_length by blast
  then show ?thesis
    using k(2) by simp
qed

lemma row_match_shrinks:
  assumes "search True modelRowRegex html = Some (before, ps, after)"
  shows "length after < length html"
proof -
  obtain t where "match_atoms True modelRowRegex t = Some ps"
    using search_SomeD [OF assms] by blast
  then have "length (ustr ''<tr'') \<le> length (concat ps)"
    unfolding modelRowRegex_def by (rule match_literal_first)
  moreover have "length (ustr ''<tr'') = 3"
    by (simp add: ustr_def)
  moreover have "length html = length before + length (concat ps) + length after"
    using search_decomposition [OF assms] by (metis length_append add.assoc)
  ultimately show ?thesis
    by linarith
qed

text \<open>
  \<open>extractFromHTML\<close>: \<open>exec\<close> under the flag \<open>g\<close> resumes where the last match ended.
\<close>

function extract_loop ::
  "ustring \<Rightarrow> ScrapedModelCapabilities list \<Rightarrow> ScrapedModelCapabilities list" where
  "extract_loop html models =
     (case search True modelRowRegex html of
        None \<Rightarrow> models
      | Some (before, ps, after) \<Rightarrow>
          (let modelSlug = group_text ps 7 1;
               rowHtml = concat ps
           in case row_record modelSlug rowHtml of
                None \<Rightarrow> extract_loop after models
              | Some r \<Rightarrow> extract_loop after (models @ [r])))"
  by pat_completeness auto
termination
  by (relation "measure (\<lambda>(html, models). length html)") (auto dest: row_match_shrinks)

definition extractFromHTML :: "ustring \<Rightarrow> ScrapedModelCapabilities list" where
  "extractFromHTML html = extract_loop html []"

subsection \<open>Strategy A: the embedded page data\<close>

text \<open>
  Reading a property of a value that is neither \<open>null\<close> nor \<open>undefined\<close>. Only an object
  has one of the properties the scraper reads (\<open>props\<close>, \<open>pageProps\<close>, \<open>models\<close>, \<open>data\<close>,
  \<open>id\<close>, \<open>imageGen\<close>, \<open>webSearch\<close>, \<open>capabilities\<close>); the keys of a parsed object are
  distinct.
\<close>

fun get_prop :: "json \<Rightarrow> ustring \<Rightarrow> json option" where
  "get_prop (JObject kvs) key = map_of kvs key"
| "get_prop v key = None"

fun nullish :: "json option \<Rightarrow> bool" where
  "nullish None = True"
| "nullish (Some JNull) = True"
| "nullish (Some v) = False"

text \<open>\<open>a ?? b\<close>\<close>

definition coalesce :: "json option \<Rightarrow> json option \<Rightarrow> json option" where
  "coalesce a b = (if nullish a then b else a)"

text \<open>\<open>v?.key\<close>\<close>

definition opt_prop :: "json option \<Rightarrow> ustring \<Rightarrow> json option" where
  "opt_prop v key =
     (case v of None \<Rightarrow> None | Some JNull \<Rightarrow> None | Some w \<Rightarrow> get_prop w key)"

fun truthy :: "json option \<Rightarrow> bool" where
  "truthy None = False"
| "truthy (Some JNull) = False"
| "truthy (Some (JBool b)) = b"
| "truthy (Some (JNumber n)) = (n \<noteq> Num 0 \<and> n \<noteq> NaN)"
| "truthy (Some (JString s)) = (s \<noteq> [])"
| "truthy (Some (JArray xs)) = True"
| "truthy (Some (JObject kvs)) = True"

text \<open>
  The loop of \<open>extractFromNextData\<close> over the elements of \<open>modelsData\<close>. Reading \<open>.id\<close> of
  \<open>null\<close> throws; the function's handler then returns the models pushed so far.
\<close>

fun models_loop ::
  "json list \<Rightarrow> ScrapedModelCapabilities list \<Rightarrow> ScrapedModelCapabilities list" where
  "models_loop [] models = models"
| "models_loop (modelData # rest) models =
     (if modelData = JNull then models
      else
        (case get_prop modelData (ustr ''id'') of
           None \<Rightarrow> models_loop rest models
         | Some i \<Rightarrow>
             if \<not> truthy (Some i) then models_loop rest models
             else
               (let imageGen =
                      parsePricing
                        (coalesce
                           (coalesce (get_prop modelData (ustr ''imageGen''))
                              (opt_prop (get_prop modelData (ustr ''capabilities''))
                                 (ustr ''imageGen'')))
                           (Some JNull));
                    webSearch =
                      parsePricing
                        (coalesce
                           (coalesce (get_prop modelData (ustr ''webSearch''))
                              (opt_prop (get_prop modelData (ustr ''capabilities''))
                                 (ustr ''webSearch'')))
                           (Some JNull))
                in models_loop rest
                     (models @
                       [\<lparr>pricingImageGen = imageGen, pricingWebSearch = webSearch,
                         scraped_id = i\<rparr>]))))"

text \<open>
  \<open>extractFromNextData\<close>. \<open>for ... of\<close> over an array visits its elements; over a string
  it visits one-character strings, which have no \<open>id\<close>; over anything else it throws, and
  the handler returns the empty list.
\<close>

definition extractFromNextData :: "json \<Rightarrow> ScrapedModelCapabilities list" where
  "extractFromNextData nextData =
     (let props = opt_prop (opt_prop (Some nextData) (ustr ''props'')) (ustr ''pageProps'')
      in if \<not> truthy props then []
         else
           (let modelsData =
                  coalesce
                    (coalesce (opt_prop props (ustr ''models''))
                       (opt_prop (opt_prop props (ustr ''data'')) (ustr ''models'')))
                    (Some (JArray []))
            in case modelsData of
                 Some (JArray xs) \<Rightarrow> models_loop xs []
               | _ \<Rightarrow> []))"

subsection \<open>The page fetch\<close>

text \<open>
  What \<open>fetch\<close> gives: it rejects, or it resolves to a response whose body read
  (\<open>response.text()\<close>) may itself reject.
\<close>

record Response =
  ok :: bool
  status :: nat
  statusText :: ustring
  body :: "thrown + ustring"

fun decimal :: "nat \<Rightarrow> ustring" where
  "decimal n = (if n < 10 then [48 + n] else decimal (n div 10) @ [48 + n mod 10])"

text \<open>\<open>String(error)\<close>, as a template string converts a thrown value.\<close>

fun thrown_string :: "thrown \<Rightarrow> ustring" where
  "thrown_string (ErrorObj n m) =
     (if n = [] then m else if m = [] then n else n @ ustr '': '' @ m)"
| "thrown_string (NonError s) = s"

text \<open>\<open>/<script[^>]*id="__NEXT_DATA__"[^>]*>(.*?)<\/script>/s\<close>; the group is atom 5.\<close>

definition nextDataRegex :: "atom list" where
  "nextDataRegex =
     [Lit (ustr ''<script''), Cls (\<lambda>c. c \<noteq> cu CHR ''>'') Star,
      Lit (ustr ''id='' @ [34] @ ustr ''__NEXT_DATA__'' @ [34]),
      Cls (\<lambda>c. c \<noteq> cu CHR ''>'') Star, Lit (ustr ''>''),
      Cls (\<lambda>c. True) LazyStar,
      Lit (ustr ''</script>'')]"

text \<open>
  What the outer handler returns, \<open>errs\<close> being the errors pushed before: \<open>models\<close> is
  still empty whenever something can throw.
\<close>

definition scraping_failed :: "ustring list \<Rightarrow> thrown \<Rightarrow> ScrapeResult" where
  "scraping_failed errs error =
     \<lparr>scrape_models = [],
      scrape_errors = errs @ [ustr ''Scraping failed: '' @ message_or_unknown error]\<rparr>"

text \<open>
  \<open>scrapeVercelModelsPage\<close>, given what \<open>fetch\<close> gave. \<open>JSON_parse\<close> is the built-in: it
  returns the parsed value or throws.
\<close>

definition scrapeVercelModelsPage ::
  "(ustring \<Rightarrow> thrown + json) \<Rightarrow> thrown + Response \<Rightarrow> ScrapeResult" where
  "scrapeVercelModelsPage JSON_parse fetched =
     (case fetched of
        Inl error \<Rightarrow> scraping_failed [] error
      | Inr response \<Rightarrow>
          if \<not> ok response
          then scraping_failed []
                 (ErrorObj (ustr ''Error'')
                    (ustr ''Failed to fetch models page: '' @ decimal (status response) @
                     ustr '' '' @ statusText response))
          else
            (case body response of
               Inl error \<Rightarrow> scraping_failed [] error
             | Inr html \<Rightarrow>
                 (let fallback =
                        (\<lambda>errs. \<lparr>scrape_models = [] @ extractFromHTML html,
                                   scrape_errors = errs\<rparr>)
                  in case search False nextDataRegex html of
                       None \<Rightarrow> fallback []
                     | Some (before, jsonMatch, after) \<Rightarrow>
                         (case JSON_parse (group_text jsonMatch 5 1) of
                            Inl parseError \<Rightarrow>
                              fallback
                                [ustr ''Failed to parse Next.js data: '' @
                                 thrown_string parseError]
                          | Inr nextData \<Rightarrow>
                              (let extracted = extractFromNextData nextData
                               in if length extracted > 0
                                  then \<lparr>scrape_models = extracted, scrape_errors = []\<rparr>
                                  else fallback [])))))"


section \<open>Example pages\<close>

text \<open>
  A table row for \<open>gemini-3-flash\<close> with the text \<open>Image Gen $0.02\<close> and no mention of web
  search, and the same row with a third cell that holds an em dash.
\<close>

definition gemini_row :: ustring where
  "gemini_row =
     ustr ''<tr><td><a href='' @ [34] @ ustr ''/ai-gateway/models/gemini-3-flash'' @ [34] @
     ustr ''>Gemini 3 Flash</a></td><td>Image Gen $0.02</td></tr>''"

definition gemini_row_dash :: ustring where
  "gemini_row_dash =
     ustr ''<tr><td><a href='' @ [34] @ ustr ''/ai-gateway/models/gemini-3-flash'' @ [34] @
     ustr ''>Gemini 3 Flash</a></td><td>Image Gen $0.02</td><td>'' @ [8212] @
     ustr ''</td></tr>''"

definition not_found :: Response where
  "not_found =
     \<lparr>ok = False, status = 404, statusText = ustr ''Not Found'', body = Inr []\<rparr>"


section \<open>Facts about the mapping and the two loops\<close>

lemma sync_loop_eq:
  "sync_loop ms (u, un, n) =
     (u @ map update_for (filter changed ms),
      un @ map id' (filter (\<lambda>m. \<not> changed m) ms),
      n @ filter (\<lambda>i. \<not> in_mapping i) (map id' ms))"
  by (induction ms arbitrary: u un n) (simp_all add: changed_def Let_def)

lemma preview_loop_eq: "preview_loop ms acc = acc @ map preview_entry ms"
  by (induction ms arbitrary: acc) simp_all

lemma mapping_values:
  "map_of MODEL_CAPABILITIES i = Some c \<Longrightarrow>
     pricingImageGen c \<noteq> Some NaN \<and> pricingWebSearch c \<noteq> Some NaN"
  by (drule map_of_SomeD) (auto simp: MODEL_CAPABILITIES_def)

lemma qualified_not_inherited: "qualified_id i \<Longrightarrow> i \<notin> set Object_prototype"
  by (auto simp: qualified_id_def Object_prototype_def ustr_def)

lemma desired_not_NaN:
  "pricingImageGen (getModelCapabilities i) \<noteq> Defined (Some NaN)"
  "pricingWebSearch (getModelCapabilities i) \<noteq> Defined (Some NaN)"
  using mapping_values [of i]
  by (auto simp: getModelCapabilities_def MODEL_CAPABILITIES_at_def split: option.splits)

lemma strict_neq_iff: "b \<noteq> Defined (Some NaN) \<Longrightarrow> strict_neq a b = (Defined a \<noteq> b)"
  by (auto simp: strict_neq_def split: jsprice.splits option.splits)

lemma changed_iff:
  "changed m \<longleftrightarrow>
     Defined (pricingImageGen m) \<noteq> pricingImageGen (getModelCapabilities (id' m)) \<or>
     Defined (pricingWebSearch m) \<noteq> pricingWebSearch (getModelCapabilities (id' m))"
  by (simp add: changed_def imageGenChanged_def webSearchChanged_def strict_neq_iff
      desired_not_NaN)

lemma length_mapping: "length MODEL_CAPABILITIES = 20"
  by (simp add: MODEL_CAPABILITIES_def)

lemma POST_unchanged:
  assumes "expectedApiKey = Some k" "k \<noteq> []" "apiKey = Some k"
    and "getEnabledModels store = Inr ms" and "filter changed ms = []"
  shows "POST getEnabledModels bulk expectedApiKey apiKey store =
     \<lparr>run_response =
        Json (sync_report ms [] (map id' ms) (filter (\<lambda>i. \<not> in_mapping i) (map id' ms))
               \<lparr>total = 0, successful = 0, failed = 0, errors = []\<rparr>),
      run_store = store, run_bulk_calls = []\<rparr>"
proof -
  have "filter (\<lambda>m. \<not> changed m) ms = ms"
    using assms(5) by (simp add: filter_empty_conv)
  then show ?thesis
    using assms by (simp add: POST_def sync_loop_eq)
qed

lemma POST_changed:
  assumes "expectedApiKey = Some k" "k \<noteq> []" "apiKey = Some k"
    and "getEnabledModels store = Inr ms" and "filter changed ms \<noteq> []"
    and "bulk (map update_for (filter changed ms)) store = (Inr r, store1)"
  shows "POST getEnabledModels bulk expectedApiKey apiKey store =
     \<lparr>run_response =
        Json (sync_report ms (map update_for (filter changed ms))
               (map id' (filter (\<lambda>m. \<not> changed m) ms))
               (filter (\<lambda>i. \<not> in_mapping i) (map id' ms)) r),
      run_store = store1, run_bulk_calls = [map update_for (filter changed ms)]\<rparr>"
  using assms by (simp add: POST_def sync_loop_eq)

lemma GET_authorized:
  assumes "expectedApiKey = Some k" "k \<noteq> []" "apiKey = Some k"
    and "getEnabledModels store = Inr ms"
  shows "GET getEnabledModels expectedApiKey apiKey store =
     Json \<lparr>preview_success = True,
           preview_source = ustr ''static-mapping'',
           mappingVersion = ustr ''2026-01-05'',
           preview = map preview_entry ms,
           preview_summary_total = length ms,
           preview_summary_willUpdate = length (filter changed ms),
           preview_summary_unchanged = length (filter (\<lambda>m. \<not> changed m) ms),
           preview_summary_inMapping = length (filter (\<lambda>m. in_mapping (id' m)) ms),
           preview_summary_notInMapping =
             length (filter (\<lambda>m. \<not> in_mapping (id' m)) ms)\<rparr>"
  using assms
  by (simp add: GET_def preview_loop_eq Let_def filter_map o_def preview_entry_def
      changed_def [abs_def])

lemma POST_report_shape:
  assumes "expectedApiKey = Some k" "k \<noteq> []" "apiKey = Some k"
    and "getEnabledModels store = Inr ms"
    and "run_response (POST getEnabledModels bulk expectedApiKey apiKey store) = Json report"
  shows "\<exists>r. report =
           sync_report ms (map update_for (filter changed ms))
             (map id' (filter (\<lambda>m. \<not> changed m) ms))
             (filter (\<lambda>i. \<not> in_mapping i) (map id' ms)) r"
  using assms
  by (auto simp: POST_def sync_loop_eq split: if_splits prod.splits sum.splits)

lemma POST_bulk_calls:
  assumes "expectedApiKey = Some k" "k \<noteq> []" "apiKey = Some k"
    and "getEnabledModels store = Inr ms"
  shows "concat (run_bulk_calls (POST getEnabledModels bulk expectedApiKey apiKey store)) =
           map update_for (filter changed ms)"
  using assms
  by (auto simp: POST_def sync_loop_eq split: prod.splits sum.splits)

lemma in_mapping_iff:
  assumes "qualified_id i"
  shows "in_mapping i \<longleftrightarrow> i \<in> fst ` set MODEL_CAPABILITIES"
proof -
  have "in_mapping i \<longleftrightarrow> map_of MODEL_CAPABILITIES i \<noteq> None"
    using qualified_not_inherited [OF assms]
    by (simp add: in_mapping_def MODEL_CAPABILITIES_at_def split: option.splits)
  then show ?thesis
    by (simp add: map_of_eq_None_iff)
qed

lemma caps_default:
  "\<not> in_mapping i \<Longrightarrow>
     getModelCapabilities i = \<lparr>pricingImageGen = Defined None, pricingWebSearch = Defined None\<rparr>"
  by (simp add: in_mapping_def getModelCapabilities_def)

text \<open>
  For an id of the form \<open>provider/name\<close> the looked-up capabilities are the table's
  entry, or the default record when the table has none.
\<close>

lemma getModelCapabilities_qualified:
  "qualified_id i \<Longrightarrow>
     getModelCapabilities i =
       (case map_of MODEL_CAPABILITIES i of
          Some caps \<Rightarrow>
            \<lparr>pricingImageGen = Defined (pricingImageGen caps),
             pricingWebSearch = Defined (pricingWebSearch caps)\<rparr>
        | None \<Rightarrow> \<lparr>pricingImageGen = Defined None, pricingWebSearch = Defined None\<rparr>)"
  by (simp add: getModelCapabilities_def MODEL_CAPABILITIES_at_def qualified_not_inherited
      split: option.splits)

lemma caps_defined:
  "qualified_id i \<Longrightarrow>
     \<exists>a b. getModelCapabilities i = \<lparr>pricingImageGen = Defined a, pricingWebSearch = Defined b\<rparr>"
  by (auto simp: getModelCapabilities_def MODEL_CAPABILITIES_at_def qualified_not_inherited
      split: option.splits)

lemma copy_updates:
  "map (\<lambda>u. \<lparr>pricingImageGen = pricingImageGen u,
              pricingWebSearch = pricingWebSearch u, id' = id' u\<rparr>) us = us"
  by (induction us) simp_all

lemma update_for_fields:
  "pricingImageGen (update_for m) = pricingImageGen (getModelCapabilities (id' (update_for m)))"
  "pricingWebSearch (update_for m) = pricingWebSearch (getModelCapabilities (id' (update_for m)))"
  "id' (update_for m) = id' m"
  by (simp_all add: update_for_def Let_def)


section \<open>Facts about the store\<close>

lemma store_bulk_update_accepting:
  "snd (store_bulk_update (\<lambda>u. None) us rows) = written_all us rows"
  by (induction us arbitrary: rows) (simp_all add: split_beta)

lemma id_write_row: "id' (write_row u row) = id' row"
  by (simp add: write_row_def)

lemma length_written_all: "length (written_all us rows) = length rows"
  by (induction us arbitrary: rows) simp_all

lemma write_row_settled:
  assumes "qualified_id (id' u)"
    and "pricingImageGen u = pricingImageGen (getModelCapabilities (id' u))"
    and "pricingWebSearch u = pricingWebSearch (getModelCapabilities (id' u))"
    and "\<not> changed row \<or> id' row = id' u"
  shows "\<not> changed (write_row u row)"
proof -
  obtain a b where
    "getModelCapabilities (id' u) = \<lparr>pricingImageGen = Defined a, pricingWebSearch = Defined b\<rparr>"
    using caps_defined [OF assms(1)] by blast
  then show ?thesis
    using assms(2-4) by (auto simp: changed_iff write_row_def stored_def)
qed

lemma written_all_settled:
  assumes "\<forall>u \<in> set us.
      qualified_id (id' u) \<and>
      pricingImageGen u = pricingImageGen (getModelCapabilities (id' u)) \<and>
      pricingWebSearch u = pricingWebSearch (getModelCapabilities (id' u))"
    and "\<forall>row \<in> set rows. \<not> changed row \<or> id' row \<in> id' ` set us"
  shows "\<forall>row \<in> set (written_all us rows). \<not> changed row"
  using assms
proof (induction us arbitrary: rows)
  case Nil
  then show ?case by simp
next
  case (Cons u us)
  have "\<forall>row \<in> set (map (write_row u) rows). \<not> changed row \<or> id' row \<in> id' ` set us"
  proof
    fix row' assume "row' \<in> set (map (write_row u) rows)"
    then obtain row where row: "row \<in> set rows" "row' = write_row u row" by auto
    show "\<not> changed row' \<or> id' row' \<in> id' ` set us"
    proof (cases "\<not> changed row \<or> id' row = id' u")
      case True
      then have "\<not> changed row'"
        using Cons.prems(1) row(2) by (simp add: write_row_settled)
      then show ?thesis ..
    next
      case False
      then have "id' row \<in> id' ` set us"
        using Cons.prems(2) row(1) by auto
      then show ?thesis by (simp add: row(2) id_write_row)
    qed
  qed
  with Cons.IH [of "map (write_row u) rows"] Cons.prems(1)
  show ?case by simp
qed

lemma first_run_settles:
  assumes "\<forall>m \<in> set ms. qualified_id (id' m)"
  shows "filter changed (written_all (map update_for (filter changed ms)) ms) = []"
proof -
  have "\<forall>row \<in> set (written_all (map update_for (filter changed ms)) ms). \<not> changed row"
  proof (rule written_all_settled)
    show "\<forall>u \<in> set (map update_for (filter changed ms)).
      qualified_id (id' u) \<and>
      pricingImageGen u = pricingImageGen (getModelCapabilities (id' u)) \<and>
      pricingWebSearch u = pricingWebSearch (getModelCapabilities (id' u))"
      using update_for_fields assms by auto
    show "\<forall>row \<in> set ms.
      \<not> changed row \<or> id' row \<in> id' ` set (map update_for (filter changed ms))"
    proof
      fix row assume "row \<in> set ms"
      show "\<not> changed row \<or> id' row \<in> id' ` set (map update_for (filter changed ms))"
      proof (cases "changed row")
        case True
        then have "update_for row \<in> set (map update_for (filter changed ms))"
          using \<open>row \<in> set ms\<close> by simp
        then have "id' (update_for row) \<in> id' ` set (map update_for (filter changed ms))"
          by (rule imageI)
        then show ?thesis by (simp only: update_for_fields(3)) simp
      next
        case False
        then show ?thesis ..
      qed
    qed
  qed
  then show ?thesis by (simp add: filter_empty_conv)
qed


section \<open>Facts about the example stores\<close>

lemma secret_nonempty: "ustr ''secret'' \<noteq> []"
  by (simp add: ustr_def)

lemma caps_examples:
  "getModelCapabilities (ustr ''openai/gpt-4o'') =
     \<lparr>pricingImageGen = Defined (Some (Num 0.02)), pricingWebSearch = Defined None\<rparr>"
  "getModelCapabilities (ustr ''xai/grok-3'') =
     \<lparr>pricingImageGen = Defined None, pricingWebSearch = Defined (Some (Num 0.05))\<rparr>"
  "getModelCapabilities (ustr ''perplexity/sonar'') =
     \<lparr>pricingImageGen = Defined None, pricingWebSearch = Defined (Some (Num 0.005))\<rparr>"
  by (simp_all add: getModelCapabilities_def MODEL_CAPABILITIES_at_def MODEL_CAPABILITIES_def
      ustr_def)

lemma id_examples:
  "id' gpt4o_stale = ustr ''openai/gpt-4o''" "id' gpt4o_synced = ustr ''openai/gpt-4o''"
  "id' grok3_stale = ustr ''xai/grok-3''" "id' grok3_synced = ustr ''xai/grok-3''"
  "id' sonar_stale = ustr ''perplexity/sonar''" "id' sonar_synced = ustr ''perplexity/sonar''"
  by (simp_all add: gpt4o_stale_def gpt4o_synced_def grok3_stale_def grok3_synced_def
      sonar_stale_def sonar_synced_def)

lemma qualified_examples:
  "qualified_id (ustr ''openai/gpt-4o'')" "qualified_id (ustr ''xai/grok-3'')"
  "qualified_id (ustr ''perplexity/sonar'')"
  by (simp_all add: qualified_id_def ustr_def)

lemma listed_examples:
  "in_mapping (ustr ''openai/gpt-4o'')" "in_mapping (ustr ''xai/grok-3'')"
  "in_mapping (ustr ''perplexity/sonar'')"
  by (simp_all add: in_mapping_iff qualified_examples MODEL_CAPABILITIES_def)

lemma changed_examples:
  "changed gpt4o_stale" "changed grok3_stale" "changed sonar_stale"
  "\<not> changed gpt4o_synced" "\<not> changed grok3_synced" "\<not> changed sonar_synced"
  by (simp_all add: changed_iff gpt4o_stale_def grok3_stale_def sonar_stale_def
      gpt4o_synced_def grok3_synced_def sonar_synced_def caps_examples)

lemma update_examples:
  "update_for gpt4o_stale = gpt4o_update"
  "update_for grok3_stale = grok3_update"
  "update_for sonar_stale = sonar_update"
  by (simp_all add: update_for_def gpt4o_stale_def grok3_stale_def sonar_stale_def
      gpt4o_update_def grok3_update_def sonar_update_def caps_examples)

lemma write_examples:
  "write_row gpt4o_update gpt4o_stale = gpt4o_synced"
  "write_row gpt4o_update grok3_stale = grok3_stale"
  "write_row gpt4o_update sonar_stale = sonar_stale"
  "write_row grok3_update gpt4o_synced = gpt4o_synced"
  "write_row grok3_update grok3_stale = grok3_synced"
  "write_row grok3_update sonar_stale = sonar_stale"
  "write_row sonar_update gpt4o_synced = gpt4o_synced"
  "write_row sonar_update grok3_stale = grok3_stale"
  "write_row sonar_update grok3_synced = grok3_synced"
  "write_row sonar_update sonar_stale = sonar_synced"
  by (simp_all add: write_row_def stored_def gpt4o_stale_def grok3_stale_def sonar_stale_def
      gpt4o_synced_def grok3_synced_def sonar_synced_def gpt4o_update_def grok3_update_def
      sonar_update_def ustr_def)

lemma rejects_examples:
  "rejects_grok3 gpt4o_update = None"
  "rejects_grok3 grok3_update = Some (ustr ''update failed'')"
  "rejects_grok3 sonar_update = None"
  by (simp_all add: rejects_grok3_def gpt4o_update_def grok3_update_def sonar_update_def
      ustr_def)

lemma mapping_keys_hd:
  "i \<in> fst ` set MODEL_CAPABILITIES \<Longrightarrow> hd i \<in> {111, 103, 120, 112}"
  by (auto simp: MODEL_CAPABILITIES_def ustr_def)

lemma unlisted_qualified: "m \<in> set (unlisted_models n) \<Longrightarrow> qualified_id (id' m)"
  by (auto simp: unlisted_models_def qualified_id_def ustr_def)

lemma unlisted_not_in_mapping:
  assumes "m \<in> set (unlisted_models n)"
  shows "\<not> in_mapping (id' m)"
proof
  assume "in_mapping (id' m)"
  then have "id' m \<in> fst ` set MODEL_CAPABILITIES"
    using assms by (simp add: in_mapping_iff unlisted_qualified)
  then have "hd (id' m) \<in> {111, 103, 120, 112}"
    by (rule mapping_keys_hd)
  moreover have "hd (id' m) = 97"
    using assms by (auto simp: unlisted_models_def ustr_def)
  ultimately show False by simp
qed

lemma unlisted_unchanged: "m \<in> set (unlisted_models n) \<Longrightarrow> \<not> changed m"
  using unlisted_not_in_mapping [of m n]
  by (auto simp: changed_iff caps_default) (auto simp: unlisted_models_def)

lemma unlisted_filter_changed:
  "filter changed (unlisted_models n) = []"
  "filter (\<lambda>m. \<not> changed m) (unlisted_models n) = unlisted_models n"
  by (simp_all add: filter_empty_conv filter_id_conv unlisted_unchanged)

lemma unlisted_missing:
  "filter (\<lambda>i. i \<notin> fst ` set MODEL_CAPABILITIES) (map id' (unlisted_models n)) =
     map id' (unlisted_models n)"
  using unlisted_not_in_mapping [of _ n] unlisted_qualified [of _ n]
  by (auto simp: filter_id_conv in_mapping_iff)

lemma unlisted_listed:
  "filter (\<lambda>m. id' m \<in> fst ` set MODEL_CAPABILITIES) (unlisted_models n) = []"
  using unlisted_not_in_mapping [of _ n] unlisted_qualified [of _ n]
  by (auto simp: filter_empty_conv in_mapping_iff)

lemma length_unlisted: "length (unlisted_models n) = n"
  by (simp add: unlisted_models_def)

text \<open>Runs of POST on the example stores, evaluated.\<close>

lemma run_accepting:
  "POST store_getEnabledModels (store_bulkUpdateModelCapabilities accepts_all)
       (Some (ustr ''secret'')) (Some (ustr ''secret'')) [gpt4o_stale, grok3_stale] =
     \<lparr>run_response =
        Json (sync_report [gpt4o_stale, grok3_stale] [gpt4o_update, grok3_update] [] []
               \<lparr>total = 2, successful = 2, failed = 0, errors = []\<rparr>),
      run_store = [gpt4o_synced, grok3_synced],
      run_bulk_calls = [[gpt4o_update, grok3_update]]\<rparr>"
  by (simp add: POST_changed [where k = "ustr ''secret''"] secret_nonempty
      store_getEnabledModels_def store_bulkUpdateModelCapabilities_def accepts_all_def
      changed_examples update_examples write_examples id_examples listed_examples
      numeral_2_eq_2)

lemma run_rejecting_grok3:
  "POST store_getEnabledModels (store_bulkUpdateModelCapabilities rejects_grok3)
       (Some (ustr ''secret'')) (Some (ustr ''secret''))
       [gpt4o_stale, grok3_stale, sonar_stale] =
     \<lparr>run_response =
        Json (sync_report [gpt4o_stale, grok3_stale, sonar_stale]
               [gpt4o_update, grok3_update, sonar_update] [] []
               \<lparr>total = 3, successful = 2, failed = 1, errors = [ustr ''update failed'']\<rparr>),
      run_store = [gpt4o_synced, grok3_stale, sonar_synced],
      run_bulk_calls = [[gpt4o_update, grok3_update, sonar_update]]\<rparr>"
  by (simp add: POST_changed [where k = "ustr ''secret''"] secret_nonempty
      store_getEnabledModels_def store_bulkUpdateModelCapabilities_def rejects_examples
      changed_examples update_examples write_examples id_examples listed_examples
      numeral_2_eq_2 numeral_3_eq_3)

lemma run_rejecting_grok3_again:
  "POST store_getEnabledModels (store_bulkUpdateModelCapabilities rejects_grok3)
       (Some (ustr ''secret'')) (Some (ustr ''secret''))
       [gpt4o_synced, grok3_stale, sonar_synced] =
     \<lparr>run_response =
        Json (sync_report [gpt4o_synced, grok3_stale, sonar_synced] [grok3_update]
               [ustr ''openai/gpt-4o'', ustr ''perplexity/sonar''] []
               \<lparr>total = 1, successful = 0, failed = 1, errors = [ustr ''update failed'']\<rparr>),
      run_store = [gpt4o_synced, grok3_stale, sonar_synced],
      run_bulk_calls = [[grok3_update]]\<rparr>"
  by (simp add: POST_changed [where k = "ustr ''secret''"] secret_nonempty
      store_getEnabledModels_def store_bulkUpdateModelCapabilities_def rejects_examples
      changed_examples update_examples id_examples listed_examples)

lemma run_unlisted:
  "POST store_getEnabledModels (store_bulkUpdateModelCapabilities accepts_all)
       (Some (ustr ''secret'')) (Some (ustr ''secret'')) (gpt4o_synced # unlisted_models n) =
     \<lparr>run_response =
        Json (sync_report (gpt4o_synced # unlisted_models n) []
               (map id' (gpt4o_synced # unlisted_models n))
               (filter (\<lambda>i. \<not> in_mapping i) (map id' (gpt4o_synced # unlisted_models n)))
               \<lparr>total = 0, successful = 0, failed = 0, errors = []\<rparr>),
      run_store = gpt4o_synced # unlisted_models n, run_bulk_calls = []\<rparr>"
  by (simp add: POST_unchanged [where k = "ustr ''secret''"] secret_nonempty
      store_getEnabledModels_def changed_examples unlisted_filter_changed)


section \<open>Reconciliation\<close>

text \<open>
  C2. A field counts as changed exactly when the stored value and the value read from the
  looked-up capabilities are not the same value (absent equals absent only, a number only
  the same number); a model counts as changed when either field does. The preview has one
  entry per current model, in input order, carrying the stored and the looked-up values;
  POST's loop puts each model, in input order, either on \<open>updates\<close> (when changed) or on
  \<open>unchanged\<close>.
\<close>

theorem diff_rule:
  assumes "expectedApiKey = Some k" "k \<noteq> []" "apiKey = Some k"
    and "getEnabledModels store = Inr existingModels"
  shows "\<exists>previewReport.
           GET getEnabledModels expectedApiKey apiKey store = Json previewReport \<and>
           length (preview previewReport) = length existingModels \<and>
           map entry_id (preview previewReport) = map id' existingModels \<and>
           map entry_current (preview previewReport) =
             map (\<lambda>m. \<lparr>pricingImageGen = pricingImageGen m,
                         pricingWebSearch = pricingWebSearch m\<rparr>) existingModels \<and>
           map entry_new (preview previewReport) =
             map (\<lambda>m. getModelCapabilities (id' m)) existingModels \<and>
           map entry_willUpdate (preview previewReport) =
             map (\<lambda>m. imageGenChanged m \<or> webSearchChanged m) existingModels \<and>
           (\<forall>m. imageGenChanged m =
                  (Defined (pricingImageGen m) \<noteq>
                   pricingImageGen (getModelCapabilities (id' m))) \<and>
                webSearchChanged m =
                  (Defined (pricingWebSearch m) \<noteq>
                   pricingWebSearch (getModelCapabilities (id' m)))) \<and>
           fst (sync_loop existingModels ([], [], [])) =
             map update_for
               (filter (\<lambda>m. imageGenChanged m \<or> webSearchChanged m) existingModels) \<and>
           fst (snd (sync_loop existingModels ([], [], []))) =
             map id'
               (filter (\<lambda>m. \<not> (imageGenChanged m \<or> webSearchChanged m)) existingModels)"
proof -
  have fields: "\<forall>m. imageGenChanged m =
                  (Defined (pricingImageGen m) \<noteq>
                   pricingImageGen (getModelCapabilities (id' m))) \<and>
                webSearchChanged m =
                  (Defined (pricingWebSearch m) \<noteq>
                   pricingWebSearch (getModelCapabilities (id' m)))"
    by (simp add: imageGenChanged_def webSearchChanged_def strict_neq_iff desired_not_NaN)
  have loop: "sync_loop existingModels ([], [], []) =
      (map update_for (filter changed existingModels),
       map id' (filter (\<lambda>m. \<not> changed m) existingModels),
       filter (\<lambda>i. \<not> in_mapping i) (map id' existingModels))"
    using sync_loop_eq [of existingModels "[]" "[]" "[]"] by simp
  have entries: "map entry_id (map preview_entry existingModels) = map id' existingModels"
    "map entry_current (map preview_entry existingModels) =
       map (\<lambda>m. \<lparr>pricingImageGen = pricingImageGen m,
                   pricingWebSearch = pricingWebSearch m\<rparr>) existingModels"
    "map entry_new (map preview_entry existingModels) =
       map (\<lambda>m. getModelCapabilities (id' m)) existingModels"
    "map entry_willUpdate (map preview_entry existingModels) =
       map (\<lambda>m. imageGenChanged m \<or> webSearchChanged m) existingModels"
    by (simp_all add: preview_entry_def Let_def o_def)
  show ?thesis
    using assms fields entries
    by (simp add: GET_authorized [where k = k] loop changed_def [abs_def])
qed

theorem diff_rule_witness:
  "\<exists>previewReport.
     GET store_getEnabledModels (Some (ustr ''secret'')) (Some (ustr ''secret''))
       [gpt4o_stale, grok3_synced] = Json previewReport \<and>
     map entry_id (preview previewReport) = [ustr ''openai/gpt-4o'', ustr ''xai/grok-3''] \<and>
     map entry_willUpdate (preview previewReport) = [True, False]"
proof -
  let ?rows = "[gpt4o_stale, grok3_synced]"
  have read: "store_getEnabledModels ?rows = Inr ?rows"
    by (simp add: store_getEnabledModels_def)
  have ch: "imageGenChanged gpt4o_stale \<or> webSearchChanged gpt4o_stale"
      "\<not> (imageGenChanged grok3_synced \<or> webSearchChanged grok3_synced)"
    using changed_examples by (simp_all add: changed_def)
  show ?thesis
    using diff_rule
      [where getEnabledModels = store_getEnabledModels and store = ?rows,
       OF refl secret_nonempty refl read] ch
    by (auto simp: id_examples)
qed


section \<open>Apply: what is written and what is reported\<close>

text \<open>
  C1, as stated, fails: when the store refuses a record of the first run's batch, the row
  keeps its values, and the second run, right after the first, submits that record again.
  Here the first run leaves \<open>xai/grok-3\<close> as it was; the second run calls the bulk write
  with its record and counts two of the three models unchanged.
\<close>

theorem second_run_resubmits_refused:
  "POST store_getEnabledModels (store_bulkUpdateModelCapabilities rejects_grok3)
       (Some (ustr ''secret'')) (Some (ustr ''secret''))
       (run_store
          (POST store_getEnabledModels (store_bulkUpdateModelCapabilities rejects_grok3)
             (Some (ustr ''secret'')) (Some (ustr ''secret''))
             [gpt4o_stale, grok3_stale, sonar_stale])) =
     \<lparr>run_response =
        Json \<lparr>success = True, source = ustr ''static-mapping'',
              summary_totalModels = 3, summary_inMapping = 20, summary_updated = 0,
              summary_unchanged = 2, summary_notInMapping = 0, summary_failed = 1,
              details_updated = [grok3_update], details_notInMapping = [],
              details_errors = [ustr ''update failed'']\<rparr>,
      run_store = [gpt4o_synced, grok3_stale, sonar_synced],
      run_bulk_calls = [[grok3_update]]\<rparr>"
  by (simp add: run_rejecting_grok3 run_rejecting_grok3_again sync_report_def length_mapping
      grok3_update_def)

text \<open>
  C1, amended. Take an authorised apply run on a store whose read gives \<open>existingModels\<close>,
  all with ids of the form \<open>provider/name\<close>. If the read of the store it leaves gives those
  rows with every record written that the run submitted to the bulk write, then a second
  run on that store makes no call of the bulk write, leaves the store as it is and reports
  every model unchanged: 0 updated, 0 failed, an empty \<open>details.updated\<close>.
\<close>

theorem apply_idempotent:
  assumes "expectedApiKey = Some k" "k \<noteq> []" "apiKey = Some k"
    and "\<forall>m \<in> set existingModels. qualified_id (id' m)"
    and "getEnabledModels store = Inr existingModels"
    and "first = POST getEnabledModels bulkUpdateModelCapabilities expectedApiKey apiKey store"
    and "getEnabledModels (run_store first) =
           Inr (written_all (concat (run_bulk_calls first)) existingModels)"
  shows "\<exists>report.
           POST getEnabledModels bulkUpdateModelCapabilities expectedApiKey apiKey
               (run_store first) =
             \<lparr>run_response = Json report, run_store = run_store first,
              run_bulk_calls = []\<rparr> \<and>
           summary_updated report = 0 \<and>
           summary_failed report = 0 \<and>
           details_updated report = [] \<and>
           summary_unchanged report = length existingModels \<and>
           summary_totalModels report = length existingModels"
proof -
  have "concat (run_bulk_calls first) = map update_for (filter changed existingModels)"
    unfolding assms(6) using assms(1-3,5) by (rule POST_bulk_calls)
  then have read: "getEnabledModels (run_store first) =
      Inr (written_all (map update_for (filter changed existingModels)) existingModels)"
    using assms(7) by simp
  show ?thesis
    using assms(1-3) read
    by (simp add: POST_unchanged [where k = k] first_run_settles [OF assms(4)] sync_report_def
        length_written_all)
qed

theorem apply_idempotent_witness:
  "\<exists>report.
     POST store_getEnabledModels (store_bulkUpdateModelCapabilities accepts_all)
         (Some (ustr ''secret'')) (Some (ustr ''secret''))
         (run_store
            (POST store_getEnabledModels (store_bulkUpdateModelCapabilities accepts_all)
               (Some (ustr ''secret'')) (Some (ustr ''secret''))
               [gpt4o_stale, grok3_stale])) =
       \<lparr>run_response = Json report,
        run_store = [gpt4o_synced, grok3_synced],
        run_bulk_calls = []\<rparr> \<and>
     summary_updated report = 0 \<and> summary_failed report = 0 \<and> details_updated report = [] \<and>
     summary_unchanged report = 2 \<and> summary_totalModels report = 2"
proof -
  let ?rows = "[gpt4o_stale, grok3_stale]"
  let ?bulk = "store_bulkUpdateModelCapabilities accepts_all"
  let ?first = "POST store_getEnabledModels ?bulk (Some (ustr ''secret''))
         (Some (ustr ''secret'')) ?rows"
  have ids: "\<forall>m \<in> set ?rows. qualified_id (id' m)"
    by (simp add: id_examples qualified_examples)
  have read: "store_getEnabledModels ?rows = Inr ?rows"
    by (simp add: store_getEnabledModels_def)
  have second: "store_getEnabledModels (run_store ?first) =
      Inr (written_all (concat (run_bulk_calls ?first)) ?rows)"
    by (simp add: run_accepting store_getEnabledModels_def write_examples)
  show ?thesis
    using apply_idempotent
      [where getEnabledModels = store_getEnabledModels and store = ?rows
         and bulkUpdateModelCapabilities = ?bulk,
       OF refl secret_nonempty refl ids read refl second]
    by (simp add: run_accepting numeral_2_eq_2)
qed

text \<open>
  C3. When no stored capability differs from the value read from the looked-up
  capabilities of its model (in particular when there are no models), an authorised apply
  run makes no call of the bulk write, leaves the store as it was, and reports 0 updated
  and 0 failed.
\<close>

theorem no_change_no_write:
  assumes "expectedApiKey = Some k" "k \<noteq> []" "apiKey = Some k"
    and "getEnabledModels store = Inr existingModels"
    and "\<forall>m \<in> set existingModels.
           Defined (pricingImageGen m) = pricingImageGen (getModelCapabilities (id' m)) \<and>
           Defined (pricingWebSearch m) = pricingWebSearch (getModelCapabilities (id' m))"
  shows "\<exists>report.
           POST getEnabledModels bulkUpdateModelCapabilities expectedApiKey apiKey store =
             \<lparr>run_response = Json report, run_store = store, run_bulk_calls = []\<rparr> \<and>
           summary_updated report = 0 \<and> summary_failed report = 0"
proof -
  have "filter changed existingModels = []"
    using assms(5) by (auto simp: filter_empty_conv changed_iff)
  then show ?thesis
    using assms(1-4) by (simp add: POST_unchanged [where k = k] sync_report_def)
qed

theorem no_change_no_write_witness:
  "\<exists>report.
     POST store_getEnabledModels (store_bulkUpdateModelCapabilities accepts_all)
         (Some (ustr ''secret'')) (Some (ustr ''secret'')) [gpt4o_synced] =
       \<lparr>run_response = Json report, run_store = [gpt4o_synced], run_bulk_calls = []\<rparr> \<and>
     summary_updated report = 0 \<and> summary_failed report = 0"
proof -
  have read: "store_getEnabledModels [gpt4o_synced] = Inr [gpt4o_synced]"
    by (simp add: store_getEnabledModels_def)
  have same: "\<forall>m \<in> set [gpt4o_synced].
      Defined (pricingImageGen m) = pricingImageGen (getModelCapabilities (id' m)) \<and>
      Defined (pricingWebSearch m) = pricingWebSearch (getModelCapabilities (id' m))"
    by (simp add: gpt4o_synced_def caps_examples)
  show ?thesis
    by (rule no_change_no_write
          [where getEnabledModels = store_getEnabledModels and store = "[gpt4o_synced]",
           OF refl secret_nonempty refl read same])
qed

lemma empty_store_no_write:
  "POST store_getEnabledModels bulk (Some (ustr ''secret'')) (Some (ustr ''secret'')) [] =
     \<lparr>run_response =
        Json (sync_report [] [] [] [] \<lparr>total = 0, successful = 0, failed = 0, errors = []\<rparr>),
      run_store = [], run_bulk_calls = []\<rparr>"
  by (simp add: POST_def store_getEnabledModels_def secret_nonempty)

text \<open>
  A row named after an inherited property is never settled: the looked-up value has no
  price property, so the row counts as changed whatever it holds.
\<close>

lemma inherited_name_always_changed:
  "changed \<lparr>pricingImageGen = a, pricingWebSearch = b, id' = ustr ''constructor''\<rparr>"
  by (simp add: changed_iff getModelCapabilities_def MODEL_CAPABILITIES_at_def
      MODEL_CAPABILITIES_def Object_prototype_def ustr_def)

text \<open>
  C4. When the bulk write returns a result, whatever its counts, the apply run answers
  with a report: \<open>summary.updated\<close> is the result's \<open>successful\<close>, \<open>summary.failed\<close> its
  \<open>failed\<close>, \<open>details.errors\<close> its \<open>errors\<close>, and \<open>success\<close> is true. The example is a run
  with three changed records of which the store refuses one.
\<close>

theorem partial_failure_reported:
  assumes "expectedApiKey = Some k" "k \<noteq> []" "apiKey = Some k"
    and "getEnabledModels store = Inr existingModels"
    and "updates = map update_for (filter changed existingModels)"
    and "updates \<noteq> []"
    and "bulkUpdateModelCapabilities updates store = (Inr updateResult, store1)"
  shows "\<exists>report.
           POST getEnabledModels bulkUpdateModelCapabilities expectedApiKey apiKey store =
             \<lparr>run_response = Json report, run_store = store1, run_bulk_calls = [updates]\<rparr> \<and>
           success report \<and>
           summary_updated report = successful updateResult \<and>
           summary_failed report = failed updateResult \<and>
           details_errors report = errors updateResult"
proof -
  have "filter changed existingModels \<noteq> []"
    using assms(5,6) by auto
  then show ?thesis
    using assms by (simp add: POST_changed [where k = k] sync_report_def)
qed

theorem partial_failure_reported_witness:
  "\<exists>report.
     POST store_getEnabledModels (store_bulkUpdateModelCapabilities rejects_grok3)
         (Some (ustr ''secret'')) (Some (ustr ''secret''))
         [gpt4o_stale, grok3_stale, sonar_stale] =
       \<lparr>run_response = Json report,
        run_store = [gpt4o_synced, grok3_stale, sonar_synced],
        run_bulk_calls = [[gpt4o_update, grok3_update, sonar_update]]\<rparr> \<and>
     success report \<and> summary_updated report = 2 \<and> summary_failed report = 1 \<and>
     details_errors report = [ustr ''update failed'']"
proof -
  let ?rows = "[gpt4o_stale, grok3_stale, sonar_stale]"
  let ?ups = "[gpt4o_update, grok3_update, sonar_update]"
  let ?res = "\<lparr>total = 3, successful = 2, failed = 1, errors = [ustr ''update failed'']\<rparr>"
  have read: "store_getEnabledModels ?rows = Inr ?rows"
    by (simp add: store_getEnabledModels_def)
  have ups: "?ups = map update_for (filter changed ?rows)"
    by (simp add: changed_examples update_examples)
  have ne: "?ups \<noteq> []" by simp
  have w: "store_bulkUpdateModelCapabilities rejects_grok3 ?ups ?rows =
             (Inr ?res, [gpt4o_synced, grok3_stale, sonar_synced])"
    by (simp add: store_bulkUpdateModelCapabilities_def rejects_examples write_examples
        numeral_2_eq_2 numeral_3_eq_3)
  show ?thesis
    using partial_failure_reported
      [where getEnabledModels = store_getEnabledModels and store = ?rows
         and bulkUpdateModelCapabilities = "store_bulkUpdateModelCapabilities rejects_grok3"
         and updateResult = ?res,
       OF refl secret_nonempty refl read ups ne w]
    by simp
qed

text \<open>
  C5, as stated, fails: a store that refuses the only record of the batch leaves the row
  as it was and reports 0 updated and 1 failed, yet \<open>details.updated\<close> lists the record.
\<close>

theorem updated_lists_refused_record:
  "POST store_getEnabledModels (store_bulkUpdateModelCapabilities rejects_all)
       (Some (ustr ''secret'')) (Some (ustr ''secret'')) [gpt4o_stale] =
     \<lparr>run_response =
        Json \<lparr>success = True, source = ustr ''static-mapping'',
              summary_totalModels = 1, summary_inMapping = 20, summary_updated = 0,
              summary_unchanged = 0, summary_notInMapping = 0, summary_failed = 1,
              details_updated = [gpt4o_update], details_notInMapping = [],
              details_errors = [ustr ''update failed'']\<rparr>,
      run_store = [gpt4o_stale], run_bulk_calls = [[gpt4o_update]]\<rparr>"
  by (simp add: POST_changed [where k = "ustr ''secret''"] secret_nonempty
      store_getEnabledModels_def store_bulkUpdateModelCapabilities_def rejects_all_def
      changed_examples update_examples id_examples listed_examples sync_report_def
      length_mapping gpt4o_update_def)

text \<open>
  C5, amended. In an apply run that answers with a report, \<open>details.updated\<close> is the batch
  submitted to the bulk write: the record built from the looked-up capabilities for every
  current model whose stored capabilities differ from them, in input order, whether or not
  the store accepted it. A preview lists every current model, and the \<open>new\<close> sides of its
  entries with \<open>willUpdate\<close> are exactly that batch.
\<close>

theorem updated_lists_submitted:
  assumes "expectedApiKey = Some k" "k \<noteq> []" "apiKey = Some k"
    and "getEnabledModels store = Inr existingModels"
    and "POST getEnabledModels bulkUpdateModelCapabilities expectedApiKey apiKey store = run"
    and "run_response run = Json report"
  shows "details_updated report = map update_for (filter changed existingModels) \<and>
         map id' (details_updated report) = map id' (filter changed existingModels) \<and>
         map pricingImageGen (details_updated report) =
           map (\<lambda>m. pricingImageGen (getModelCapabilities (id' m)))
             (filter changed existingModels) \<and>
         map pricingWebSearch (details_updated report) =
           map (\<lambda>m. pricingWebSearch (getModelCapabilities (id' m)))
             (filter changed existingModels) \<and>
         run_bulk_calls run =
           (if details_updated report = [] then [] else [details_updated report]) \<and>
         (\<exists>previewReport.
            GET getEnabledModels expectedApiKey apiKey store = Json previewReport \<and>
            preview previewReport = map preview_entry existingModels \<and>
            map (\<lambda>p. \<lparr>pricingImageGen = pricingImageGen (entry_new p),
                       pricingWebSearch = pricingWebSearch (entry_new p),
                       id' = entry_id p\<rparr>)
              (filter entry_willUpdate (preview previewReport)) = details_updated report)"
proof -
  have det: "details_updated report = map update_for (filter changed existingModels) \<and>
      run_bulk_calls run =
        (if details_updated report = [] then [] else [details_updated report])"
    using assms
    by (auto simp: POST_def sync_loop_eq sync_report_def copy_updates
        split: if_splits prod.splits sum.splits)
  have proj: "map (\<lambda>p. \<lparr>pricingImageGen = pricingImageGen (entry_new p),
                       pricingWebSearch = pricingWebSearch (entry_new p),
                       id' = entry_id p\<rparr>)
              (filter entry_willUpdate (map preview_entry existingModels)) =
      map update_for (filter changed existingModels)"
    by (induction existingModels)
       (simp_all add: preview_entry_def update_for_def Let_def changed_def)
  have fields: "id' (update_for m) = id' m"
    "pricingImageGen (update_for m) = pricingImageGen (getModelCapabilities (id' m))"
    "pricingWebSearch (update_for m) = pricingWebSearch (getModelCapabilities (id' m))" for m
    by (simp_all add: update_for_def Let_def)
  show ?thesis
    using assms(1-4) det proj by (simp add: GET_authorized [where k = k] fields)
qed

theorem updated_lists_submitted_witness:
  "\<exists>run report.
     POST store_getEnabledModels (store_bulkUpdateModelCapabilities rejects_grok3)
         (Some (ustr ''secret'')) (Some (ustr ''secret''))
         [gpt4o_stale, grok3_stale, sonar_stale] = run \<and>
     run_response run = Json report \<and>
     summary_updated report = 2 \<and>
     details_updated report = [gpt4o_update, grok3_update, sonar_update] \<and>
     run_bulk_calls run = [[gpt4o_update, grok3_update, sonar_update]]"
proof -
  let ?rows = "[gpt4o_stale, grok3_stale, sonar_stale]"
  let ?run = "POST store_getEnabledModels (store_bulkUpdateModelCapabilities rejects_grok3)
         (Some (ustr ''secret'')) (Some (ustr ''secret'')) ?rows"
  let ?report = "sync_report ?rows [gpt4o_update, grok3_update, sonar_update] [] []
      \<lparr>total = 3, successful = 2, failed = 1, errors = [ustr ''update failed'']\<rparr>"
  have read: "store_getEnabledModels ?rows = Inr ?rows"
    by (simp add: store_getEnabledModels_def)
  have resp: "run_response ?run = Json ?report"
    by (simp add: run_rejecting_grok3)
  have "details_updated ?report = map update_for (filter changed ?rows) \<and>
     run_bulk_calls ?run =
       (if details_updated ?report = [] then [] else [details_updated ?report])"
    using updated_lists_submitted
      [where getEnabledModels = store_getEnabledModels and store = ?rows
         and bulkUpdateModelCapabilities = "store_bulkUpdateModelCapabilities rejects_grok3",
       OF refl secret_nonempty refl read refl resp]
    by blast
  then show ?thesis
    using resp by (simp add: changed_examples update_examples sync_report_def)
qed


section \<open>The two meanings of inMapping, and the capped detail list\<close>

text \<open>
  C9. For current models with ids of the form \<open>provider/name\<close>: in an apply report
  \<open>summary.inMapping\<close> is the number of entries of the mapping table (20, whatever the
  current models are); in a preview report \<open>summary.inMapping\<close> is the number of current
  models that have an entry in the table.
\<close>

theorem inMapping_two_meanings:
  assumes "expectedApiKey = Some k" "k \<noteq> []" "apiKey = Some k"
    and "\<forall>m \<in> set existingModels. qualified_id (id' m)"
    and "getEnabledModels store = Inr existingModels"
    and "run_response
           (POST getEnabledModels bulkUpdateModelCapabilities expectedApiKey apiKey store)
           = Json report"
  shows "summary_inMapping report = length MODEL_CAPABILITIES \<and>
         summary_inMapping report = 20 \<and>
         (\<exists>previewReport.
            GET getEnabledModels expectedApiKey apiKey store = Json previewReport \<and>
            preview_summary_inMapping previewReport =
              length (filter (\<lambda>m. id' m \<in> fst ` set MODEL_CAPABILITIES) existingModels))"
proof -
  obtain r where "report =
      sync_report existingModels (map update_for (filter changed existingModels))
        (map id' (filter (\<lambda>m. \<not> changed m) existingModels))
        (filter (\<lambda>i. \<not> in_mapping i) (map id' existingModels)) r"
    using POST_report_shape [OF assms(1-3,5,6)] by blast
  then have "summary_inMapping report = length MODEL_CAPABILITIES"
    by (simp add: sync_report_def)
  moreover have "filter (\<lambda>m. in_mapping (id' m)) existingModels =
      filter (\<lambda>m. id' m \<in> fst ` set MODEL_CAPABILITIES) existingModels"
    using assms(4) by (intro filter_cong) (simp_all add: in_mapping_iff)
  ultimately show ?thesis
    using assms(1-3,5)
    by (simp add: GET_authorized [where k = k] length_mapping)
qed

theorem inMapping_two_meanings_witness:
  "\<exists>report previewReport.
     run_response
       (POST store_getEnabledModels (store_bulkUpdateModelCapabilities accepts_all)
          (Some (ustr ''secret'')) (Some (ustr ''secret'')) (gpt4o_synced # unlisted_models 2))
       = Json report \<and>
     GET store_getEnabledModels (Some (ustr ''secret'')) (Some (ustr ''secret''))
       (gpt4o_synced # unlisted_models 2) = Json previewReport \<and>
     summary_inMapping report = 20 \<and> preview_summary_inMapping previewReport = 1"
proof -
  let ?rows = "gpt4o_synced # unlisted_models 2"
  let ?bulk = "store_bulkUpdateModelCapabilities accepts_all"
  have ids: "\<forall>m \<in> set ?rows. qualified_id (id' m)"
    using unlisted_qualified [of _ 2] by (simp add: id_examples qualified_examples)
  have read: "store_getEnabledModels ?rows = Inr ?rows"
    by (simp add: store_getEnabledModels_def)
  have run: "run_response
      (POST store_getEnabledModels ?bulk (Some (ustr ''secret'')) (Some (ustr ''secret'')) ?rows)
      = Json (sync_report ?rows [] (map id' ?rows)
               (filter (\<lambda>i. \<not> in_mapping i) (map id' ?rows))
               \<lparr>total = 0, successful = 0, failed = 0, errors = []\<rparr>)"
    by (simp only: run_unlisted run.simps)
  have listed: "id' gpt4o_synced \<in> fst ` set MODEL_CAPABILITIES"
    using listed_examples(1) by (simp add: in_mapping_iff qualified_examples id_examples)
  show ?thesis
    using inMapping_two_meanings
      [where getEnabledModels = store_getEnabledModels and store = ?rows
         and bulkUpdateModelCapabilities = ?bulk,
       OF refl secret_nonempty refl ids read run] run
    by (auto simp: listed unlisted_listed)
qed

text \<open>
  C10. For current models with ids of the form \<open>provider/name\<close>: in an apply report
  \<open>details.notInMapping\<close> is the first 20 ids, in input order, of the current models
  without an entry in the mapping, and \<open>summary.notInMapping\<close> counts all of them; with
  more than 20 such models the list is strictly shorter than the count.
\<close>

theorem notInMapping_detail_capped:
  assumes "expectedApiKey = Some k" "k \<noteq> []" "apiKey = Some k"
    and "\<forall>m \<in> set existingModels. qualified_id (id' m)"
    and "getEnabledModels store = Inr existingModels"
    and "run_response
           (POST getEnabledModels bulkUpdateModelCapabilities expectedApiKey apiKey store)
           = Json report"
    and "missing = filter (\<lambda>i. i \<notin> fst ` set MODEL_CAPABILITIES) (map id' existingModels)"
  shows "details_notInMapping report = take 20 missing \<and>
         summary_notInMapping report = length missing \<and>
         length (details_notInMapping report) \<le> 20 \<and>
         (if 20 < length missing
          then length (details_notInMapping report) < summary_notInMapping report
          else details_notInMapping report = missing)"
proof -
  obtain r where "report =
      sync_report existingModels (map update_for (filter changed existingModels))
        (map id' (filter (\<lambda>m. \<not> changed m) existingModels))
        (filter (\<lambda>i. \<not> in_mapping i) (map id' existingModels)) r"
    using POST_report_shape [OF assms(1-3,5,6)] by blast
  moreover have "filter (\<lambda>i. \<not> in_mapping i) (map id' existingModels) = missing"
    unfolding assms(7)
  proof (rule filter_cong [OF refl])
    fix x assume "x \<in> set (map id' existingModels)"
    then obtain m where "m \<in> set existingModels" "x = id' m" by auto
    then have "qualified_id x" using assms(4) by simp
    then show "(\<not> in_mapping x) = (x \<notin> fst ` set MODEL_CAPABILITIES)"
      by (simp add: in_mapping_iff)
  qed
  ultimately show ?thesis
    by (simp add: sync_report_def)
qed

theorem notInMapping_detail_capped_witness:
  "\<exists>report.
     run_response
       (POST store_getEnabledModels (store_bulkUpdateModelCapabilities accepts_all)
          (Some (ustr ''secret'')) (Some (ustr ''secret''))
          (gpt4o_synced # unlisted_models 21)) = Json report \<and>
     length (details_notInMapping report) = 20 \<and> summary_notInMapping report = 21"
proof -
  let ?rows = "gpt4o_synced # unlisted_models 21"
  let ?bulk = "store_bulkUpdateModelCapabilities accepts_all"
  let ?report = "sync_report ?rows [] (map id' ?rows)
      (filter (\<lambda>i. \<not> in_mapping i) (map id' ?rows))
      \<lparr>total = 0, successful = 0, failed = 0, errors = [] :: ustring list\<rparr>"
  have ids: "\<forall>m \<in> set ?rows. qualified_id (id' m)"
    using unlisted_qualified [of _ 21] by (simp add: id_examples qualified_examples)
  have read: "store_getEnabledModels ?rows = Inr ?rows"
    by (simp add: store_getEnabledModels_def)
  have run: "run_response
      (POST store_getEnabledModels ?bulk (Some (ustr ''secret'')) (Some (ustr ''secret'')) ?rows)
      = Json ?report"
    by (simp only: run_unlisted run.simps)
  have missing: "map id' (unlisted_models 21) =
      filter (\<lambda>i. i \<notin> fst ` set MODEL_CAPABILITIES) (map id' ?rows)"
    using listed_examples(1)
    by (simp add: unlisted_missing in_mapping_iff qualified_examples id_examples)
  have "details_notInMapping ?report = take 20 (map id' (unlisted_models 21)) \<and>
        summary_notInMapping ?report = length (map id' (unlisted_models 21))"
    using notInMapping_detail_capped
      [where getEnabledModels = store_getEnabledModels and store = ?rows
         and bulkUpdateModelCapabilities = ?bulk,
       OF refl secret_nonempty refl ids read run missing]
    by simp
  then show ?thesis
    using run by (simp add: length_unlisted)
qed


section \<open>The scraper\<close>


lemmas pattern_eval =
  ustr_def cu_def same_text_def to_upper_def to_lower_def in_class_def is_digit_def is_ws_def
  rx_test_def group_text_def

lemmas number_eval =
  parseFloat_def unsigned_literal_def digits_value_def exponent_part_def scale10_def
  is_digit_def is_ws_def ustr_def cu_def

text \<open>
  C6. \<open>parsePricing\<close> returns a value for every input: absent for \<open>null\<close> and \<open>undefined\<close>,
  a number unchanged (0 included), \<open>0.02\<close> for \<open>"$0.02"\<close>, \<open>1234.5\<close> for \<open>"  $1,234.5 "\<close>,
  absent for \<open>"abc"\<close>, and absent for a value of any other type.
\<close>

theorem parsePricing_cases:
  "parsePricing (Some JNull) = None \<and>
   parsePricing None = None \<and>
   parsePricing (Some (JNumber (Num 0))) = Some (Num 0) \<and>
   parsePricing (Some (JNumber n)) = Some n \<and>
   parsePricing (Some (JString (ustr ''$0.02''))) = Some (Num 0.02) \<and>
   parsePricing (Some (JString (ustr ''  $1,234.5 ''))) = Some (Num 1234.5) \<and>
   parsePricing (Some (JString (ustr ''abc''))) = None \<and>
   parsePricing (Some (JBool b)) = None \<and>
   parsePricing (Some (JArray xs)) = None \<and>
   parsePricing (Some (JObject kvs)) = None"
  by (simp add: number_eval)

text \<open>
  C7. When \<open>fetch\<close> rejects, when the response is not ok, and when reading the body
  rejects, \<open>scrapeVercelModelsPage\<close> returns a result with no models and exactly one error,
  which describes the failure.
\<close>

theorem scrape_failure_recorded:
  "scrapeVercelModelsPage JSON_parse (Inl error) =
     \<lparr>scrape_models = [],
      scrape_errors = [ustr ''Scraping failed: '' @ message_or_unknown error]\<rparr> \<and>
   (\<not> ok response \<longrightarrow>
      scrapeVercelModelsPage JSON_parse (Inr response) =
        \<lparr>scrape_models = [],
         scrape_errors =
           [ustr ''Scraping failed: Failed to fetch models page: '' @
            decimal (status response) @ ustr '' '' @ statusText response]\<rparr>) \<and>
   (ok response \<and> body response = Inl error \<longrightarrow>
      scrapeVercelModelsPage JSON_parse (Inr response) =
        \<lparr>scrape_models = [],
         scrape_errors = [ustr ''Scraping failed: '' @ message_or_unknown error]\<rparr>)"
  by (simp add: scrapeVercelModelsPage_def scraping_failed_def ustr_def)

theorem scrape_failure_recorded_witness:
  "scrapeVercelModelsPage (\<lambda>s. Inr JNull) (Inr not_found) =
     \<lparr>scrape_models = [],
      scrape_errors = [ustr ''Scraping failed: Failed to fetch models page: 404 Not Found'']\<rparr>"
proof -
  have "\<not> ok not_found" by (simp add: not_found_def)
  moreover have "decimal (status not_found) = ustr ''404''"
    by (simp add: not_found_def ustr_def)
  moreover have "statusText not_found = ustr ''Not Found''"
    by (simp add: not_found_def)
  ultimately show ?thesis
    using scrape_failure_recorded [of "\<lambda>s. Inr JNull" "NonError []" not_found]
    by (simp add: ustr_def)
qed

lemma same_text_refl: "same_text ci l l"
  by (simp add: same_text_def)

lemma match_literal_here: "match_atoms ci [Lit l] (l @ z) = Some [l]"
  by (simp add: same_text_refl)

lemma search_literal_found: "search ci [Lit l] (x @ l @ z) \<noteq> None"
proof (induction x)
  case Nil
  show ?case
  proof (cases "l @ z")
    case Nil
    then show ?thesis by (simp add: same_text_refl)
  next
    case (Cons c s)
    then have "search ci [Lit l] (c # s) = Some ([], [l], drop (length (concat [l])) (c # s))"
      using match_literal_here [of ci l z] by (simp del: match_atoms.simps)
    then show ?thesis using Cons by simp
  qed
next
  case (Cons c x)
  then show ?case
    by (cases "match_atoms ci [Lit l] (c # x @ l @ z)")
       (auto simp del: match_atoms.simps split: option.splits)
qed

lemma group_in_match:
  "concat ps = concat (take i ps) @ group_text ps i n @ concat (drop (i + n) ps)"
proof -
  have "drop i ps = take n (drop i ps) @ drop n (drop i ps)"
    by (rule append_take_drop_id [symmetric])
  then have "concat (drop i ps) = concat (take n (drop i ps)) @ concat (drop (i + n) ps)"
    by (metis concat_append drop_drop add.commute)
  moreover have "concat ps = concat (take i ps) @ concat (drop i ps)"
    by (metis append_take_drop_id concat_append)
  ultimately show ?thesis
    by (simp add: group_text_def)
qed


text \<open>
  C8, amended. Take markup whose only row match has the slug \<open>gemini-3-flash\<close>. If the row
  holds none of the keywords \<open>openai\<close>, \<open>gpt\<close>, \<open>anthropic\<close>, \<open>claude\<close>, mentions image
  generation and not web search, holds no negation marker (an em dash, \<open>none\<close>, \<open>no\<close>, in
  any case) anywhere, and its first currency-formatted number is \<open>$0.02\<close>, then the markup
  strategy emits exactly the record \<open>google/gemini-3-flash\<close> with image generation at
  \<open>0.02\<close> and web search absent.
\<close>

theorem gemini_row_extracted:
  assumes "search True modelRowRegex html = Some (before, ps, after)"
    and "search True modelRowRegex after = None"
    and "group_text ps 7 1 = ustr ''gemini-3-flash''"
    and "rowHtml = concat ps"
    and "\<not> rx_test True [[Lit (ustr ''openai'')], [Lit (ustr ''gpt'')]] rowHtml"
    and "\<not> rx_test True [[Lit (ustr ''anthropic'')], [Lit (ustr ''claude'')]] rowHtml"
    and "rx_test True imageGenRegex rowHtml"
    and "\<not> rx_test True webSearchRegex rowHtml"
    and "\<not> rx_test True negationRegex rowHtml"
    and "search True priceRegex rowHtml = Some (b, m, a)"
    and "group_text m 1 3 = ustr ''0.02''"
  shows "extractFromHTML html =
           [\<lparr>pricingImageGen = Some (Num 0.02), pricingWebSearch = None,
             scraped_id = JString (ustr ''google/gemini-3-flash'')\<rparr>]"
proof -
  have "rowHtml = concat (take 7 ps) @ ustr ''gemini-3-flash'' @ concat (drop (7 + 1) ps)"
    using group_in_match [of ps 7 1] assms(3,4) by simp
  then have "rowHtml = concat (take 7 ps) @ ustr ''gemini'' @ (ustr ''-3-flash'' @ concat (drop (7 + 1) ps))"
    by (simp add: ustr_def)
  then have "search True [Lit (ustr ''gemini'')] rowHtml \<noteq> None"
    using search_literal_found [of True "ustr ''gemini''" "concat (take 7 ps)"] by simp
  then have google: "rx_test True [[Lit (ustr ''google'')], [Lit (ustr ''gemini'')]] rowHtml"
    by (simp add: rx_test_def)
  have slug: "map (\<lambda>c. if c = cu CHR ''-'' then cu CHR ''-'' else c) (ustr ''gemini-3-flash'')
      = ustr ''gemini-3-flash''"
    by (simp add: ustr_def cu_def)
  have id: "inferModelId (ustr ''gemini-3-flash'') rowHtml = Some (ustr ''google/gemini-3-flash'')"
    using assms(5,6) google slug
    by (simp add: inferModelId_def providerPatterns_def) (simp add: ustr_def)
  have price: "extractPricingFromRow rowHtml cap = Some (Num 0.02)" for cap
    using assms(10,11) by (simp add: extractPricingFromRow_def) (simp add: number_eval)
  have ne: "ustr ''google/gemini-3-flash'' \<noteq> []"
    by (simp add: ustr_def)
  have row: "row_record (ustr ''gemini-3-flash'') rowHtml =
      Some \<lparr>pricingImageGen = Some (Num 0.02), pricingWebSearch = None,
             scraped_id = JString (ustr ''google/gemini-3-flash'')\<rparr>"
    using assms(7,8,9) ne by (simp add: row_record_def id price)
  have "extract_loop after acc = acc" for acc
    using assms(2) by (subst extract_loop.simps) simp
  then show ?thesis
    unfolding extractFromHTML_def
    using assms(1,3,4) row
    by (subst extract_loop.simps) simp
qed


lemma gemini_row_units:
  "gemini_row =
     [60, 116, 114, 62, 60, 116, 100, 62, 60, 97, 32, 104, 114, 101, 102, 61, 34, 47, 97,
      105, 45, 103, 97, 116, 101, 119, 97, 121, 47, 109, 111, 100, 101, 108, 115, 47, 103,
      101, 109, 105, 110, 105, 45, 51, 45, 102, 108, 97, 115, 104, 34, 62, 71, 101, 109,
      105, 110, 105, 32, 51, 32, 70, 108, 97, 115, 104, 60, 47, 97, 62, 60, 47, 116, 100,
      62, 60, 116, 100, 62, 73, 109, 97, 103, 101, 32, 71, 101, 110, 32, 36, 48, 46, 48,
      50, 60, 47, 116, 100, 62, 60, 47, 116, 114, 62]"
  by (simp add: gemini_row_def ustr_def)

lemma gemini_row_dash_units:
  "gemini_row_dash =
     [60, 116, 114, 62, 60, 116, 100, 62, 60, 97, 32, 104, 114, 101, 102, 61, 34, 47, 97,
      105, 45, 103, 97, 116, 101, 119, 97, 121, 47, 109, 111, 100, 101, 108, 115, 47, 103,
      101, 109, 105, 110, 105, 45, 51, 45, 102, 108, 97, 115, 104, 34, 62, 71, 101, 109,
      105, 110, 105, 32, 51, 32, 70, 108, 97, 115, 104, 60, 47, 97, 62, 60, 47, 116, 100,
      62, 60, 116, 100, 62, 73, 109, 97, 103, 101, 32, 71, 101, 110, 32, 36, 48, 46, 48,
      50, 60, 47, 116, 100, 62, 60, 116, 100, 62, 8212, 60, 47, 116, 100, 62, 60, 47, 116,
      114, 62]"
  by (simp add: gemini_row_dash_def ustr_def)

lemma gemini_row_match:
  "search True modelRowRegex gemini_row =
     Some ([],
       [ustr ''<tr'', [], ustr ''>'', ustr ''<td>'', ustr ''<a'', ustr '' '',
        ustr ''href='' @ [34] @ ustr ''/ai-gateway/models/'', ustr ''gemini-3-flash'', [34],
        [], ustr ''>'', ustr ''Gemini 3 Flash</a></td><td>Image Gen $0.02</td>'',
        ustr ''</tr>''], [])"
  unfolding gemini_row_units
  by (simp add: modelRowRegex_def pattern_eval)

lemma gemini_row_dash_match:
  "search True modelRowRegex gemini_row_dash =
     Some ([],
       [ustr ''<tr'', [], ustr ''>'', ustr ''<td>'', ustr ''<a'', ustr '' '',
        ustr ''href='' @ [34] @ ustr ''/ai-gateway/models/'', ustr ''gemini-3-flash'', [34],
        [], ustr ''>'',
        ustr ''Gemini 3 Flash</a></td><td>Image Gen $0.02</td><td>'' @ [8212] @ ustr ''</td>'',
        ustr ''</tr>''], [])"
  unfolding gemini_row_dash_units
  by (simp add: modelRowRegex_def pattern_eval)

lemma gemini_row_tests:
  "\<not> rx_test True [[Lit (ustr ''openai'')], [Lit (ustr ''gpt'')]] gemini_row"
  "\<not> rx_test True [[Lit (ustr ''anthropic'')], [Lit (ustr ''claude'')]] gemini_row"
  "rx_test True imageGenRegex gemini_row"
  "\<not> rx_test True webSearchRegex gemini_row"
  "\<not> rx_test True negationRegex gemini_row"
  unfolding gemini_row_units
  by (simp_all add: rx_test_def imageGenRegex_def webSearchRegex_def negationRegex_def
      pattern_eval)

lemma gemini_row_price:
  "search True priceRegex gemini_row =
     Some (ustr ''<tr><td><a href='' @ [34] @ ustr ''/ai-gateway/models/gemini-3-flash'' @ [34] @
           ustr ''>Gemini 3 Flash</a></td><td>Image Gen '',
           [ustr ''$'', ustr ''0'', ustr ''.'', ustr ''02'', [], []],
           ustr ''</td></tr>'')"
  unfolding gemini_row_units
  by (simp add: priceRegex_def pattern_eval)

lemma gemini_row_dash_tests:
  "\<not> rx_test True [[Lit (ustr ''openai'')], [Lit (ustr ''gpt'')]] gemini_row_dash"
  "\<not> rx_test True [[Lit (ustr ''anthropic'')], [Lit (ustr ''claude'')]] gemini_row_dash"
  "rx_test True [[Lit (ustr ''google'')], [Lit (ustr ''gemini'')]] gemini_row_dash"
  "rx_test True imageGenRegex gemini_row_dash"
  "\<not> rx_test True webSearchRegex gemini_row_dash"
  "rx_test True negationRegex gemini_row_dash"
  "rx_test False [[Lit (ustr ''href='' @ [34] @ ustr ''/ai-gateway/models/gemini-3-flash'' @ [34])]]
     gemini_row_dash"
  "rx_test False [[Lit (ustr ''Image Gen $0.02'')]] gemini_row_dash"
  unfolding gemini_row_dash_units
  by (simp_all add: rx_test_def imageGenRegex_def webSearchRegex_def negationRegex_def
      pattern_eval)


lemma search_empty_row: "search True modelRowRegex [] = None"
  by (simp add: modelRowRegex_def pattern_eval)

theorem gemini_row_extracted_witness:
  "extractFromHTML gemini_row =
     [\<lparr>pricingImageGen = Some (Num 0.02), pricingWebSearch = None,
       scraped_id = JString (ustr ''google/gemini-3-flash'')\<rparr>]"
proof -
  let ?ps = "[ustr ''<tr'', [], ustr ''>'', ustr ''<td>'', ustr ''<a'', ustr '' '',
        ustr ''href='' @ [34] @ ustr ''/ai-gateway/models/'', ustr ''gemini-3-flash'', [34],
        [], ustr ''>'', ustr ''Gemini 3 Flash</a></td><td>Image Gen $0.02</td>'',
        ustr ''</tr>'']"
  let ?m = "[ustr ''$'', ustr ''0'', ustr ''.'', ustr ''02'', [], []]"
  have slug: "group_text ?ps 7 1 = ustr ''gemini-3-flash''"
    by (simp add: group_text_def)
  have whole: "gemini_row = concat ?ps"
    by (simp add: gemini_row_def ustr_def)
  have price: "group_text ?m 1 3 = ustr ''0.02''"
    by (simp add: group_text_def ustr_def)
  show ?thesis
    by (rule gemini_row_extracted
          [OF gemini_row_match search_empty_row slug whole gemini_row_tests gemini_row_price
              price])
qed

text \<open>
  C8, as stated, fails: a row with the link, the text \<open>Image Gen $0.02\<close>, no
  mention of web search and a cell that holds an em dash yields a record without an image
  generation price.
\<close>

theorem gemini_row_with_dash:
  "extractFromHTML gemini_row_dash =
     [\<lparr>pricingImageGen = None, pricingWebSearch = None,
       scraped_id = JString (ustr ''google/gemini-3-flash'')\<rparr>] \<and>
   rx_test False
     [[Lit (ustr ''href='' @ [34] @ ustr ''/ai-gateway/models/gemini-3-flash'' @ [34])]]
     gemini_row_dash \<and>
   rx_test False [[Lit (ustr ''Image Gen $0.02'')]] gemini_row_dash \<and>
   \<not> rx_test True webSearchRegex gemini_row_dash"
proof -
  let ?ps = "[ustr ''<tr'', [], ustr ''>'', ustr ''<td>'', ustr ''<a'', ustr '' '',
        ustr ''href='' @ [34] @ ustr ''/ai-gateway/models/'', ustr ''gemini-3-flash'', [34],
        [], ustr ''>'',
        ustr ''Gemini 3 Flash</a></td><td>Image Gen $0.02</td><td>'' @ [8212] @ ustr ''</td>'',
        ustr ''</tr>'']"
  have slug: "group_text ?ps 7 1 = ustr ''gemini-3-flash''"
    by (simp add: group_text_def)
  have whole: "concat ?ps = gemini_row_dash"
    by (simp add: gemini_row_dash_def ustr_def)
  have mapped: "map (\<lambda>c. if c = cu CHR ''-'' then cu CHR ''-'' else c) (ustr ''gemini-3-flash'')
      = ustr ''gemini-3-flash''"
    by (simp add: ustr_def cu_def)
  have id: "inferModelId (ustr ''gemini-3-flash'') gemini_row_dash =
      Some (ustr ''google/gemini-3-flash'')"
    using gemini_row_dash_tests(1-3) mapped
    by (simp add: inferModelId_def providerPatterns_def) (simp add: ustr_def)
  have ne: "ustr ''google/gemini-3-flash'' \<noteq> []"
    by (simp add: ustr_def)
  have row: "row_record (ustr ''gemini-3-flash'') gemini_row_dash =
      Some \<lparr>pricingImageGen = None, pricingWebSearch = None,
             scraped_id = JString (ustr ''google/gemini-3-flash'')\<rparr>"
    using gemini_row_dash_tests(4-6) ne by (simp add: row_record_def id)
  have stop: "extract_loop [] acc = acc" for acc
    using search_empty_row by (subst extract_loop.simps) simp
  have "extractFromHTML gemini_row_dash =
     [\<lparr>pricingImageGen = None, pricingWebSearch = None,
       scraped_id = JString (ustr ''google/gemini-3-flash'')\<rparr>]"
    unfolding extractFromHTML_def
    by (subst extract_loop.simps)
       (simp only: gemini_row_dash_match option.case prod.case Let_def slug whole row stop
          append_Nil)
  then show ?thesis
    using gemini_row_dash_tests(5,7,8) by simp
qed

end
